theory Spec2Isabelle
  imports Complex_Main "HOL-Library.Word" "HOL-Library.Sublist"
begin

section \<open>Strings\<close>

text \<open>
  Python strings are modelled as \<^typ>\<open>string\<close>, one \<^typ>\<open>char\<close> per code point, so
  that \<open>length\<close> is Python's \<^verbatim>\<open>len\<close>.  A \<^typ>\<open>char\<close> has eight bits: the two code
  points of the prompt template that lie beyond (U+20AC and U+2122) are written as
  \<open>CHR 0x80\<close> and \<open>CHR 0x99\<close>.  Uploaded file contents and the rendered document
  are byte strings.
\<close>

type_synonym bytes = "8 word list"

text \<open>\<^verbatim>\<open>sep.join(xs)\<close>\<close>

fun join :: "string \<Rightarrow> string list \<Rightarrow> string" where
  "join sep [] = ''''"
| "join sep [x] = x"
| "join sep (x # y # ys) = x @ sep @ join sep (y # ys)"

text \<open>\<^verbatim>\<open>s.split(c)\<close> for a one-character separator: never an empty list.\<close>

fun split :: "char \<Rightarrow> string \<Rightarrow> string list" where
  "split c [] = [[]]"
| "split c (x # xs) =
    (if x = c then [] # split c xs
     else (case split c xs of [] \<Rightarrow> [[x]] | w # ws \<Rightarrow> (x # w) # ws))"

text \<open>
  \<^verbatim>\<open>str.isspace\<close> on the code points below 256: tab to carriage return, the four
  separators U+001C to U+001F, space, U+0085 and U+00A0.
\<close>

definition isspace :: "char \<Rightarrow> bool" where
  "isspace ch =
    (let n = (of_char ch :: nat)
     in (9 \<le> n \<and> n \<le> 13) \<or> (28 \<le> n \<and> n \<le> 32) \<or> n = 133 \<or> n = 160)"

definition strip :: "string \<Rightarrow> string" where
  "strip s = rev (dropWhile isspace (rev (dropWhile isspace s)))"

text \<open>
  \<^verbatim>\<open>str.lower\<close> on the ASCII letters; the source only compares the lowered filename
  with the ASCII suffix \<^verbatim>\<open>.pdf\<close>.
\<close>

definition lower_char :: "char \<Rightarrow> char" where
  "lower_char ch =
    (let n = (of_char ch :: nat)
     in if 65 \<le> n \<and> n \<le> 90 then char_of (n + 32) else ch)"

definition lower :: "string \<Rightarrow> string" where
  "lower s = map lower_char s"

text \<open>Decimal digits of a natural number, \<^verbatim>\<open>str(n)\<close>.\<close>

definition digit_char :: "nat \<Rightarrow> char" where
  "digit_char d = char_of (48 + d)"

function str_nat :: "nat \<Rightarrow> string" where
  "str_nat n = (if n < 10 then [digit_char n] else str_nat (n div 10) @ [digit_char (n mod 10)])"
  by pat_completeness auto
termination
  by (relation "measure id") auto

text \<open>
  The format specification \<^verbatim>\<open>{n:,}\<close>: decimal digits in groups of three, separated by
  commas, counted from the right.
\<close>

definition three_digits :: "nat \<Rightarrow> string" where
  "three_digits n =
     [digit_char (n div 100 mod 10), digit_char (n div 10 mod 10), digit_char (n mod 10)]"

function format_commas :: "nat \<Rightarrow> string" where
  "format_commas n =
    (if n < 1000 then str_nat n
     else format_commas (n div 1000) @ '','' @ three_digits (n mod 1000))"
  by pat_completeness auto
termination
  by (relation "measure id") auto

section \<open>Data model of \<^verbatim>\<open>app/main.py\<close>\<close>

text \<open>
  A progress event is the dictionary \<^verbatim>\<open>{"type": message_type, "content": message}\<close>
  that \<^verbatim>\<open>update_status\<close> appends; the stream's closing message is the dictionary
  \<^verbatim>\<open>{'type': 'done'}\<close>, which has no content.  Dictionaries with string values are
  association lists in insertion order.
\<close>

type_synonym event = "(string \<times> string) list"

definition mk_event :: "string \<Rightarrow> string \<Rightarrow> event" where
  "mk_event message_type message = [(''type'', message_type), (''content'', message)]"

definition done_event :: event where
  "done_event = [(''type'', ''done'')]"

definition kind :: "event \<Rightarrow> string option" where
  "kind e = map_of e ''type''"

definition content :: "event \<Rightarrow> string option" where
  "content e = map_of e ''content''"

text \<open>
  A job is the dictionary stored by \<^verbatim>\<open>upload_files_for_processing\<close>:
  \<^verbatim>\<open>{"files": ..., "status_updates": [], "is_complete": False, "report_content": None}\<close>.
  Each entry of \<open>files\<close> is a filename with its extracted text.
\<close>

record job =
  files :: "(string \<times> string) list"
  status_updates :: "event list"
  is_complete :: bool
  report_content :: "string option"

type_synonym store = "string \<rightharpoonup> job"

text \<open>Exceptions, with \<open>str_exn\<close> for Python's \<^verbatim>\<open>str(e)\<close> (\<^verbatim>\<open>{e}\<close> in an f-string).\<close>

datatype exn = Exception string | ValueError string | KeyError string

fun str_exn :: "exn \<Rightarrow> string" where
  "str_exn (Exception m) = m"
| "str_exn (ValueError m) = m"
| "str_exn (KeyError k) = [CHR 0x27] @ k @ [CHR 0x27]"

text \<open>
  What a request handler can end with instead of a response: an \<^verbatim>\<open>HTTPException\<close> with
  its status code and detail, or an exception that no handler catches, which the server
  answers with status 500.
\<close>

datatype http_error = HTTPException nat string | Unhandled exn

section \<open>Prompt template and token estimate\<close>

text \<open>
  \<^verbatim>\<open>PROMPT_TEMPLATE\<close> has one replacement field, \<^verbatim>\<open>{consolidated_content}\<close>, and no
  other brace: \<^verbatim>\<open>PROMPT_TEMPLATE.format(consolidated_content=s)\<close> is the text before
  the field, \<open>s\<close>, and the text after it.
\<close>

definition PROMPT_TEMPLATE_before :: string where
  "PROMPT_TEMPLATE_before = concat
    [''\<newline>'',
     ''You are an expert security analyst AI. Your task is to analyze the following consolidated application security scan reports (which may include Mend, Fortify, Contrast, SonarQube, or similar tools). Your analysis must be comprehensive, actionable, and tailored for both technical and business stakeholders.\<newline>'',
     ''Your assessment should be structured, data-driven, and visually engaging, using tables and graphs where possible. Draw clear, evidence-based conclusions and avoid generic or random recommendations.\<newline>'',
     ''\<newline>'',
     ''INPUT:\<newline>'',
     ''\<newline>'',
     ''Consolidated scan report content from up to four sources (at least one is mandatory).\<newline>'',
     ''\<newline>'',
     ''\<newline>'',
     ''OUTPUT REQUIREMENTS:\<newline>'',
     ''1. EXECUTIVE SUMMARY\<newline>'',
     ''\<newline>'',
     ''Provide a concise overview of the application'' @ [CHR 0xE2] @ [CHR 0x80] @ [CHR 0x99] @ ''s security posture.\<newline>'',
     ''Highlight key risk indicators and trends observed across all scans.\<newline>'',
     ''Assign an overall security score or rating (with justification).\<newline>'',
     ''Summarize the most critical risks in a business-relevant manner.\<newline>'',
     ''\<newline>'',
     ''2. DETAILED FINDINGS\<newline>'',
     ''\<newline>'',
     ''List and describe all critical vulnerabilities, including their potential impact and exploitability.\<newline>'',
     ''Summarize medium and low severity issues, grouping by type and frequency.\<newline>'',
     ''Identify recurring patterns or systemic weaknesses across scans.\<newline>'',
     ''Flag likely false positives, explaining the rationale.\<newline>'',
     ''Use tables to present vulnerabilities by severity, type, and affected components.\<newline>'',
     ''Where possible, include graphs (e.g., bar charts for vulnerability counts, pie charts for severity distribution).\<newline>'',
     ''\<newline>'',
     ''3. RISK ASSESSMENT\<newline>'',
     ''\<newline>'',
     ''Present a risk prioritization matrix (e.g., heatmap or table) mapping vulnerabilities by likelihood and impact.\<newline>'',
     ''Analyze potential business impacts (e.g., data breach, compliance failure, operational disruption).\<newline>'',
     ''Discuss compliance implications (e.g., OWASP Top 10, PCI DSS, GDPR) and highlight any gaps.\<newline>'',
     ''\<newline>'',
     ''4. RECOMMENDATIONS\<newline>'',
     ''\<newline>'',
     ''Provide immediate actions for critical issues (with clear steps).\<newline>'',
     ''Outline a short-term remediation plan for high and medium risks.\<newline>'',
     ''Suggest long-term improvements to strengthen security posture (e.g., process, tooling, training).\<newline>'',
     ''Recommend best practices tailored to the observed issues and technology stack.\<newline>'',
     ''Ensure all recommendations are specific, actionable, and prioritized by risk and business impact.\<newline>'',
     ''\<newline>'',
     ''5. METRICS, TRENDS & VISUALIZATIONS\<newline>'',
     ''\<newline>'',
     ''Present key metrics:\<newline>'',
     ''\<newline>'',
     ''Vulnerability counts by severity, type, and affected modules.\<newline>'',
     ''Trends over time (if historical data is present).\<newline>'',
     ''Comparison across different scan tools (highlighting discrepancies or tool-specific findings).\<newline>'',
     ''\<newline>'',
     ''\<newline>'',
     ''Use visualizations (tables, bar/pie charts, trend lines) to make data easily digestible.\<newline>'',
     ''Highlight any positive trends or improvements compared to previous scans (if data available).\<newline>'',
     ''\<newline>'',
     ''6. CONCLUSION & NEXT STEPS\<newline>'',
     ''\<newline>'',
     ''Summarize the top 3 actionable insights.\<newline>'',
     ''Recommend next steps for both technical and business teams.\<newline>'',
     ''Suggest follow-up assessments or monitoring if needed.\<newline>'',
     ''\<newline>'',
     ''\<newline>'',
     ''ADDITIONAL INSTRUCTIONS:\<newline>'',
     ''\<newline>'',
     ''Base all conclusions and recommendations strictly on the data provided. Do not generate generic or random suggestions.\<newline>'',
     ''Cite specific evidence from the reports to support your findings.\<newline>'',
     ''Use clear, professional language suitable for both technical and executive audiences.\<newline>'',
     ''Where visualizations are suggested, describe them in Markdown (e.g., tables, chart descriptions) so they can be rendered or created by downstream tools.\<newline>'',
     ''If any required data is missing, clearly state the limitation and its impact on the analysis.\<newline>'',
     ''\<newline>'',
     ''\<newline>'',
     ''INPUT DATA:\<newline>'']"

definition PROMPT_TEMPLATE_after :: string where
  "PROMPT_TEMPLATE_after = ''\<newline>Begin your analysis below:\<newline>''"

definition PROMPT_TEMPLATE_format :: "string \<Rightarrow> string" where
  "PROMPT_TEMPLATE_format consolidated_content =
     PROMPT_TEMPLATE_before @ consolidated_content @ PROMPT_TEMPLATE_after"

definition count_tokens :: "string \<Rightarrow> nat" where
  "count_tokens text = length text div 4"

definition BASE_PROMPT_TOKENS :: nat where
  "BASE_PROMPT_TOKENS = count_tokens (PROMPT_TEMPLATE_format '''')"

section \<open>Effects of the background task\<close>

text \<open>
  The outside world: the \<open>n\<close>-th completion request of the process either raises (with
  the exception's message) or returns \<^verbatim>\<open>response.choices[0].message.content\<close>, which
  may be \<^verbatim>\<open>None\<close>; the \<open>n\<close>-th draw of \<^verbatim>\<open>random.uniform(0, 1)\<close> is a real number.
  A \<open>clock\<close> counts the requests and draws made so far.
\<close>

datatype ai_result = Raises string | Returns "string option"

record env =
  completion :: "nat \<Rightarrow> string \<Rightarrow> ai_result"
  uniform :: "nat \<Rightarrow> real"

record clock =
  calls :: nat
  draws :: nat

text \<open>
  What the retry wrapper does, in program order: \<open>Request prompt\<close> is one
  \<^verbatim>\<open>client.chat.completions.create\<close> request, \<open>Backoff t\<close> is
  \<^verbatim>\<open>await asyncio.sleep(wait_time)\<close>.
\<close>

datatype attempt_effect = Request string | Backoff real

text \<open>
  What the background task does, in program order:
  \<^item> \<open>Append e\<close>: \<^verbatim>\<open>job["status_updates"].append(e)\<close>;
  \<^item> \<open>Call prompt n inner r\<close>: a call \<^verbatim>\<open>run_openai_with_retry(prompt, n)\<close>, with what
    the wrapper did and what it returned or raised;
  \<^item> \<open>Sleep t\<close>: \<^verbatim>\<open>await asyncio.sleep(t)\<close> in the task itself;
  \<^item> \<open>SetReport r\<close>: \<^verbatim>\<open>job["report_content"] = r\<close>;
  \<^item> \<open>SetComplete\<close>: \<^verbatim>\<open>job["is_complete"] = True\<close>.
\<close>

datatype effect =
    Append event
  | Call string int "attempt_effect list" "exn + string"
  | Sleep real
  | SetReport string
  | SetComplete

section \<open>The retry wrapper\<close>

text \<open>\<^verbatim>\<open>wait_time = (2 ** attempt) + random.uniform(0, 1)\<close>\<close>

definition wait_time :: "nat \<Rightarrow> real \<Rightarrow> real" where
  "wait_time attempt u = 2 ^ attempt + u"

text \<open>
  The body of \<^verbatim>\<open>for attempt in range(max_attempts)\<close>, over the attempts still to
  run.  \<^verbatim>\<open>return content if content else ""\<close> maps both \<^verbatim>\<open>None\<close> and the empty
  string to the empty string.  When the range is exhausted without a return, the
  function returns \<^verbatim>\<open>""\<close>.
\<close>

fun retry_loop ::
  "env \<Rightarrow> string \<Rightarrow> int \<Rightarrow> nat list \<Rightarrow> clock \<Rightarrow>
     attempt_effect list \<times> (exn + string) \<times> clock" where
  "retry_loop env prompt max_attempts [] c = ([], Inr '''', c)"
| "retry_loop env prompt max_attempts (attempt # rest) c =
    (case completion env (calls c) prompt of
       Returns content_opt \<Rightarrow>
         ([Request prompt],
          Inr (case content_opt of None \<Rightarrow> '''' | Some s \<Rightarrow> s),
          c\<lparr>calls := calls c + 1\<rparr>)
     | Raises e \<Rightarrow>
         if int attempt = max_attempts - 1
         then ([Request prompt], Inl (Exception e), c\<lparr>calls := calls c + 1\<rparr>)
         else
           (case retry_loop env prompt max_attempts rest
                   (c\<lparr>calls := calls c + 1, draws := draws c + 1\<rparr>) of
              (t, r, c') \<Rightarrow>
                (Request prompt # Backoff (wait_time attempt (uniform env (draws c))) # t,
                 r, c')))"

definition run_openai_with_retry ::
  "env \<Rightarrow> string \<Rightarrow> int \<Rightarrow> clock \<Rightarrow> attempt_effect list \<times> (exn + string) \<times> clock" where
  "run_openai_with_retry env prompt max_attempts c =
     retry_loop env prompt max_attempts [0..<nat max_attempts] c"

text \<open>The requests and the waits of a wrapper trace, in order.\<close>

fun requests :: "attempt_effect list \<Rightarrow> string list" where
  "requests [] = []"
| "requests (Request p # es) = p # requests es"
| "requests (Backoff t # es) = requests es"

fun waits :: "attempt_effect list \<Rightarrow> real list" where
  "waits [] = []"
| "waits (Request p # es) = waits es"
| "waits (Backoff t # es) = t # waits es"

text \<open>
  The trace of \<open>k\<close> failed attempts that are not the last, from attempt \<open>a\<close> and
  draw \<open>d\<close> on: a request and a back-off for each.
\<close>

definition failed_attempts ::
  "env \<Rightarrow> string \<Rightarrow> nat \<Rightarrow> nat \<Rightarrow> nat \<Rightarrow> attempt_effect list" where
  "failed_attempts env prompt a d k =
     concat (map (\<lambda>i. [Request prompt, Backoff (wait_time (a + i) (uniform env (d + i)))])
               [0..<k])"

section \<open>The background task \<^verbatim>\<open>process_report_task\<close>\<close>

text \<open>\<^verbatim>\<open>update_status(message, message_type="status")\<close>\<close>

definition update_status :: "string \<Rightarrow> string \<Rightarrow> effect" where
  "update_status message message_type = Append (mk_event message_type message)"

text \<open>A call of the wrapper by the task, recorded with its arguments and outcome.\<close>

definition call_with_retry ::
  "env \<Rightarrow> string \<Rightarrow> int \<Rightarrow> clock \<Rightarrow> effect \<times> (exn + string) \<times> clock" where
  "call_with_retry env prompt max_attempts c =
    (case run_openai_with_retry env prompt max_attempts c of
       (inner, r, c') \<Rightarrow> (Call prompt max_attempts inner r, r, c'))"

definition summarizing_message :: "string \<Rightarrow> string" where
  "summarizing_message filename = ''Summarizing file: '' @ filename @ ''...''"

definition summary_prompt :: "string \<Rightarrow> string \<Rightarrow> string" where
  "summary_prompt filename content_str =
     ''Summarize all critical vulnerabilities from the file '' @ [CHR 0x27] @ filename
       @ [CHR 0x27] @ ''. TEXT: '' @ content_str"

definition tagged_summary :: "string \<Rightarrow> string \<Rightarrow> string" where
  "tagged_summary filename summary = ''--- Summary from '' @ filename @ '' ---\<newline>'' @ summary"

text \<open>
  \<^verbatim>\<open>for file_info in job["files"]\<close>, with \<open>all_summaries\<close> accumulated.  The call
  \<^verbatim>\<open>run_openai_with_retry(summary_prompt)\<close> takes the default \<^verbatim>\<open>max_attempts = 3\<close>.
  An exception leaves the loop.
\<close>

fun summarize_files ::
  "env \<Rightarrow> (string \<times> string) list \<Rightarrow> string list \<Rightarrow> clock \<Rightarrow>
     effect list \<times> (exn + string list) \<times> clock" where
  "summarize_files env [] all_summaries c = ([], Inr all_summaries, c)"
| "summarize_files env ((filename, content_str) # rest) all_summaries c =
    (case call_with_retry env (summary_prompt filename content_str) 3 c of
       (call, Inl e, c1) \<Rightarrow>
         ([update_status (summarizing_message filename) ''status'', call], Inl e, c1)
     | (call, Inr summary, c1) \<Rightarrow>
         (case summarize_files env rest (all_summaries @ [tagged_summary filename summary]) c1 of
            (t, r, c2) \<Rightarrow>
              (update_status (summarizing_message filename) ''status'' # call # Sleep 5 # t,
               r, c2)))"

definition token_message :: "nat \<Rightarrow> string" where
  "token_message final_token_count =
     ''Final prompt created with ~'' @ format_commas final_token_count
       @ '' tokens. Sending to OpenAI...''"

definition empty_response_message :: string where
  "empty_response_message =
     ''The AI returned an empty response. This can be caused by content filters.''"

text \<open>The \<^verbatim>\<open>try\<close> block: its effects, and the exception that left it, if any.\<close>

definition try_block ::
  "env \<Rightarrow> (string \<times> string) list \<Rightarrow> clock \<Rightarrow> effect list \<times> (exn + unit) \<times> clock" where
  "try_block env fs c =
    (let start = update_status
           ''Starting consolidation process. Summarizing individual files...'' ''status''
     in case summarize_files env fs [] c of
       (t1, Inl e, c1) \<Rightarrow> (start # t1, Inl e, c1)
     | (t1, Inr all_summaries, c1) \<Rightarrow>
         (let generating = update_status
                ''All summaries created. Generating final consolidated report...'' ''status'';
              consolidated_summaries = join ''\<newline>\<newline>'' all_summaries;
              final_prompt = PROMPT_TEMPLATE_format consolidated_summaries;
              final_token_count = count_tokens final_prompt;
              tokens = update_status (token_message final_token_count) ''status''
          in case call_with_retry env final_prompt 5 c1 of
            (call, Inl e, c2) \<Rightarrow> (start # t1 @ [generating, tokens, call], Inl e, c2)
          | (call, Inr report_markdown, c2) \<Rightarrow>
              if report_markdown = ''''
              then (start # t1 @ [generating, tokens, call],
                    Inl (ValueError empty_response_message), c2)
              else (start # t1 @ [generating, tokens, call,
                      SetReport report_markdown,
                      update_status ''Report content generated.'' ''report''],
                    Inr (), c2)))"

definition error_message :: "exn \<Rightarrow> string" where
  "error_message e = ''An error occurred during report processing: '' @ str_exn e"

text \<open>
  The whole of \<^verbatim>\<open>try ... except Exception as e ... finally\<close>, for the job's files.
\<close>

definition task_effects :: "env \<Rightarrow> (string \<times> string) list \<Rightarrow> clock \<Rightarrow> effect list \<times> clock" where
  "task_effects env fs c =
    (case try_block env fs c of
       (t, Inr u, c') \<Rightarrow> (t @ [SetComplete], c')
     | (t, Inl e, c') \<Rightarrow> (t @ [update_status (error_message e) ''error'', SetComplete], c'))"

text \<open>What each effect does to the job dictionary.\<close>

fun apply_effect :: "job \<Rightarrow> effect \<Rightarrow> job" where
  "apply_effect j (Append e) = j\<lparr>status_updates := status_updates j @ [e]\<rparr>"
| "apply_effect j (SetReport r) = j\<lparr>report_content := Some r\<rparr>"
| "apply_effect j SetComplete = j\<lparr>is_complete := True\<rparr>"
| "apply_effect j (Call prompt n inner r) = j"
| "apply_effect j (Sleep t) = j"

definition run_effects :: "job \<Rightarrow> effect list \<Rightarrow> job" where
  "run_effects j es = foldl apply_effect j es"

text \<open>
  \<^verbatim>\<open>process_report_task(job_id)\<close> on the job store: \<^verbatim>\<open>job = jobs[job_id]\<close> raises
  \<^verbatim>\<open>KeyError\<close> outside the \<^verbatim>\<open>try\<close> block for an unknown identifier; otherwise the
  task runs to its end and leaves the job as its effects made it.
\<close>

definition process_report_task ::
  "env \<Rightarrow> string \<Rightarrow> store \<Rightarrow> clock \<Rightarrow> exn + (store \<times> clock)" where
  "process_report_task env job_id jobs c =
    (case jobs job_id of
       None \<Rightarrow> Inl (KeyError job_id)
     | Some j \<Rightarrow>
         (case task_effects env (files j) c of
            (t, c') \<Rightarrow> Inr (jobs(job_id \<mapsto> run_effects j t), c')))"

text \<open>
  The states of the job that a reader can find while the task runs: the job before the
  first effect and after each effect, in order.
\<close>

fun job_states :: "job \<Rightarrow> effect list \<Rightarrow> job list" where
  "job_states j [] = [j]"
| "job_states j (e # es) = j # job_states (apply_effect j e) es"

section \<open>The document renderer \<^verbatim>\<open>create_docx_report\<close>\<close>

text \<open>
  The document under construction is the list of its blocks; \<open>save\<close>, the serialisation
  of the document library, is a parameter.
\<close>

datatype block = Heading string nat | Paragraph string "string option"

definition render_line :: "string \<Rightarrow> block list" where
  "render_line raw =
    (let line = strip raw
     in if prefix ''### '' line then [Heading (drop 4 line) 3]
        else if prefix ''## '' line then [Heading (drop 3 line) 2]
        else if prefix ''# '' line then [Heading (drop 2 line) 1]
        else if prefix ''* '' line \<or> prefix ''- '' line
          then [Paragraph (drop 2 line) (Some ''List Bullet'')]
        else if length line > 0 then [Paragraph line None]
        else [])"

text \<open>
  The document library writes the text of a heading or a paragraph into the XML of the
  document and raises \<^verbatim>\<open>ValueError\<close> for a character that XML does not allow: of the
  code points below U+0020 it accepts tab, line feed and carriage return only.
\<close>

definition xml_compatible :: "string \<Rightarrow> bool" where
  "xml_compatible s =
     list_all (\<lambda>ch. 32 \<le> (of_char ch :: nat) \<or> (of_char ch :: nat) = 9
                \<or> (of_char ch :: nat) = 10 \<or> (of_char ch :: nat) = 13) s"

definition xml_error :: exn where
  "xml_error = ValueError
     ''All strings must be XML compatible: Unicode or ASCII, no NULL bytes or control characters''"

fun block_text :: "block \<Rightarrow> string" where
  "block_text (Heading t level) = t"
| "block_text (Paragraph t style) = t"

text \<open>
  \<^verbatim>\<open>document.add_heading\<close> and \<^verbatim>\<open>document.add_paragraph\<close>, one call after the other:
  the first text that the library refuses ends the construction with its exception.
\<close>

fun add_blocks :: "block list \<Rightarrow> block list \<Rightarrow> exn + block list" where
  "add_blocks document [] = Inr document"
| "add_blocks document (b # bs) =
    (if xml_compatible (block_text b) then add_blocks (document @ [b]) bs
     else Inl xml_error)"

definition create_docx_report :: "(block list \<Rightarrow> bytes) \<Rightarrow> string \<Rightarrow> exn + bytes" where
  "create_docx_report save report_markdown =
    (case add_blocks []
            (Heading ''Consolidated Security Report'' 0
               # concat (map render_line (split CHR ''\<newline>'' report_markdown))) of
       Inl e \<Rightarrow> Inl e
     | Inr document \<Rightarrow> Inr (save document))"

section \<open>The endpoints\<close>

text \<open>
  An uploaded file: its name, which may be absent, and its bytes.  The PDF text
  extraction and the UTF-8 decoding that ignores errors are parameters;
  \<open>pdf_text\<close> is \<open>None\<close> where the PDF library raises.
\<close>

record upload_file =
  filename :: "string option"
  file_bytes :: bytes

definition get_text_from_file ::
  "(bytes \<Rightarrow> string option) \<Rightarrow> (bytes \<Rightarrow> string) \<Rightarrow> upload_file \<Rightarrow> string" where
  "get_text_from_file pdf_text decode file =
    (if (case filename file of None \<Rightarrow> False
         | Some name \<Rightarrow> name \<noteq> '''' \<and> suffix ''.pdf'' (lower name))
     then (case pdf_text (file_bytes file) of None \<Rightarrow> '''' | Some text_content \<Rightarrow> text_content)
     else decode (file_bytes file))"

text \<open>
  \<^verbatim>\<open>[f for f in [file1, file2, file3, file4] if f and f.filename]\<close>, each file kept
  with its name.
\<close>

fun named_files :: "upload_file option list \<Rightarrow> (string \<times> upload_file) list" where
  "named_files [] = []"
| "named_files (None # fs) = named_files fs"
| "named_files (Some f # fs) =
    (case filename f of
       None \<Rightarrow> named_files fs
     | Some name \<Rightarrow> if name = '''' then named_files fs else (name, f) # named_files fs)"

definition new_job :: "(string \<times> string) list \<Rightarrow> job" where
  "new_job file_contents =
     \<lparr>files = file_contents, status_updates = [], is_complete = False, report_content = None\<rparr>"

text \<open>
  \<^verbatim>\<open>POST /upload\<close>.  \<open>uuid4\<close> is the value of \<^verbatim>\<open>str(uuid.uuid4())\<close> in this request.
  The result is the response, the job store, and the tasks added to
  \<^verbatim>\<open>background_tasks\<close>, which run after the response.
\<close>

definition upload_files_for_processing ::
  "(bytes \<Rightarrow> string option) \<Rightarrow> (bytes \<Rightarrow> string) \<Rightarrow> string \<Rightarrow> store \<Rightarrow>
   upload_file option \<Rightarrow> upload_file option \<Rightarrow> upload_file option \<Rightarrow> upload_file option \<Rightarrow>
   http_error + (string \<times> store \<times> string list)" where
  "upload_files_for_processing pdf_text decode uuid4 jobs file1 file2 file3 file4 =
    (let fs = named_files [file1, file2, file3, file4]
     in if fs = [] then Inl (HTTPException 400 ''No files were uploaded.'')
        else
          (let file_contents = map (\<lambda>(name, f). (name, get_text_from_file pdf_text decode f)) fs;
               job_id = uuid4
           in Inr (job_id, jobs(job_id \<mapsto> new_job file_contents), [job_id])))"

text \<open>
  \<^verbatim>\<open>GET /download/{job_id}\<close>: content, media type and headers of the response.  The
  endpoint has no handler for an exception of the renderer.
\<close>

datatype response = Response bytes string "(string \<times> string) list"

definition not_found_report :: http_error where
  "not_found_report = HTTPException 404 ''Report not found or not yet complete.''"

definition download_report ::
  "(block list \<Rightarrow> bytes) \<Rightarrow> store \<Rightarrow> string \<Rightarrow> http_error + response" where
  "download_report save jobs job_id =
    (case jobs job_id of
       None \<Rightarrow> Inl not_found_report
     | Some j \<Rightarrow>
         (case report_content j of
            None \<Rightarrow> Inl not_found_report
          | Some report_markdown \<Rightarrow>
              if report_markdown = '''' then Inl not_found_report
              else
                (case create_docx_report save report_markdown of
                   Inl e \<Rightarrow> Inl (Unhandled e)
                 | Inr docx_bytes \<Rightarrow>
                     Inr (Response docx_bytes
                       ''application/vnd.openxmlformats-officedocument.wordprocessingml.document''
                       [(''Content-Disposition'',
                         ''attachment; filename=consolidated_security_report_''
                           @ take 8 job_id @ ''.docx'')]))))"

text \<open>
  \<^verbatim>\<open>GET /stream/{job_id}\<close>.  The generator is suspended at \<^verbatim>\<open>await\<close> and at each
  \<^verbatim>\<open>yield\<close>, where the task of the job may run.  What its \<open>n\<close>-th cycle meets:
  \<^item> \<open>disconnected\<close>: the answer of \<^verbatim>\<open>await request.is_disconnected()\<close>;
  \<^item> \<open>jobs_found\<close>: the job store when the cycle reads \<^verbatim>\<open>jobs[job_id]\<close>, compares
    the index with the length of the event sequence and takes the slice;
  \<^item> \<open>job_resumed\<close>: the same job dictionary as it stands when the generator resumes
    after the last \<^verbatim>\<open>yield\<close> of that slice, where it reads the length again and then
    the completion flag.
  A cycle that yields nothing reads the completion flag in the first state.
  \<open>dumps\<close> is \<^verbatim>\<open>json.dumps\<close>.  The generator returns the messages it has yielded when
  it ends; a generator that polls forever has no value.
\<close>

record poll =
  disconnected :: bool
  jobs_found :: store
  job_resumed :: job

definition sse :: "(event \<Rightarrow> string) \<Rightarrow> event \<Rightarrow> string" where
  "sse dumps e = ''data: '' @ dumps e @ ''\<newline>\<newline>''"

partial_function (option) event_generator ::
  "(nat \<Rightarrow> poll) \<Rightarrow> (event \<Rightarrow> string) \<Rightarrow> string \<Rightarrow> nat \<Rightarrow> nat \<Rightarrow> string list \<Rightarrow>
     (exn + string list) option" where
  "event_generator polls dumps job_id n last_sent_index out =
    (if disconnected (polls n) then Some (Inr out)
     else
       (case jobs_found (polls n) job_id of
          None \<Rightarrow> Some (Inl (KeyError job_id))
        | Some j \<Rightarrow>
            if last_sent_index < length (status_updates j)
            then
              (if is_complete (job_resumed (polls n))
               then Some (Inr (out @ map (sse dumps) (drop last_sent_index (status_updates j))
                                 @ [sse dumps done_event]))
               else event_generator polls dumps job_id (n + 1)
                      (length (status_updates (job_resumed (polls n))))
                      (out @ map (sse dumps) (drop last_sent_index (status_updates j))))
            else
              (if is_complete j then Some (Inr (out @ [sse dumps done_event]))
               else event_generator polls dumps job_id (n + 1) last_sent_index out)))"

definition not_found_job :: http_error where
  "not_found_job = HTTPException 404 ''Job ID not found.''"

definition stream_status ::
  "store \<Rightarrow> (nat \<Rightarrow> poll) \<Rightarrow> (event \<Rightarrow> string) \<Rightarrow> string \<Rightarrow>
     http_error + (exn + string list) option" where
  "stream_status jobs polls dumps job_id =
    (if job_id \<notin> dom jobs then Inl not_found_job
     else Inr (event_generator polls dumps job_id 0 0 []))"

section \<open>Observations on traces and jobs\<close>

text \<open>The wrapper calls of a trace, each with its prompt and its \<open>max_attempts\<close>.\<close>

fun call_args :: "effect list \<Rightarrow> (string \<times> int) list" where
  "call_args [] = []"
| "call_args (Call prompt n inner r # es) = (prompt, n) # call_args es"
| "call_args (Append e # es) = call_args es"
| "call_args (Sleep t # es) = call_args es"
| "call_args (SetReport r # es) = call_args es"
| "call_args (SetComplete # es) = call_args es"

text \<open>
  An effect is quiet when it leaves the report text and the completion flag alone and
  appends at most a status event.
\<close>

fun quiet :: "effect \<Rightarrow> bool" where
  "quiet (Append e) = (kind e = Some ''status'')"
| "quiet (Call prompt n inner r) = True"
| "quiet (Sleep t) = True"
| "quiet (SetReport r) = False"
| "quiet SetComplete = False"

definition is_report :: "event \<Rightarrow> bool" where
  "is_report e = (kind e = Some ''report'')"

definition report_events :: "job \<Rightarrow> event list" where
  "report_events j = filter is_report (status_updates j)"

definition is_completed :: "store \<Rightarrow> string \<Rightarrow> bool" where
  "is_completed jobs job_id = (case jobs job_id of None \<Rightarrow> False | Some j \<Rightarrow> is_complete j)"

text \<open>
  The steps for one document whose summary call returned \<open>summary\<close>, after the wrapper
  did \<open>inner\<close>: the status event naming the file, the call with three attempts, the pause.
\<close>

definition document_steps :: "string \<times> string \<Rightarrow> attempt_effect list \<Rightarrow> string \<Rightarrow> effect list" where
  "document_steps file inner summary =
     [Append (mk_event ''status'' (''Summarizing file: '' @ fst file @ ''...'')),
      Call (summary_prompt (fst file) (snd file)) 3 inner (Inr summary),
      Sleep 5]"

fun documents_steps ::
  "(string \<times> string) list \<Rightarrow> attempt_effect list list \<Rightarrow> string list \<Rightarrow> effect list" where
  "documents_steps (file # fs) (inner # inners) (summary # summaries) =
     document_steps file inner summary @ documents_steps fs inners summaries"
| "documents_steps fs inners summaries = []"

text \<open>The summaries of the documents, each tagged with its filename, in order.\<close>

fun tagged_summaries :: "(string \<times> string) list \<Rightarrow> string list \<Rightarrow> string list" where
  "tagged_summaries (file # fs) (summary # summaries) =
     (''--- Summary from '' @ fst file @ '' ---\<newline>'' @ summary) # tagged_summaries fs summaries"
| "tagged_summaries fs summaries = []"

definition starting_event :: event where
  "starting_event =
     mk_event ''status'' ''Starting consolidation process. Summarizing individual files...''"

definition generating_event :: event where
  "generating_event =
     mk_event ''status'' ''All summaries created. Generating final consolidated report...''"

definition report_event :: event where
  "report_event = mk_event ''report'' ''Report content generated.''"

text \<open>
  The final prompt for the summaries of all documents, and the status event that reports
  its token estimate, the length of the text divided by four.
\<close>

definition final_prompt_of :: "(string \<times> string) list \<Rightarrow> string list \<Rightarrow> string" where
  "final_prompt_of fs summaries =
     PROMPT_TEMPLATE_format (join ''\<newline>\<newline>'' (tagged_summaries fs summaries))"

definition token_event :: "string \<Rightarrow> event" where
  "token_event final_prompt =
     mk_event ''status''
       (''Final prompt created with ~'' @ format_commas (length final_prompt div 4)
          @ '' tokens. Sending to OpenAI...'')"

text \<open>
  What follows the final call in the \<^verbatim>\<open>try\<close> block, and how the block ends, by the
  outcome of that call.
\<close>

definition final_steps :: "exn + string \<Rightarrow> effect list" where
  "final_steps r =
    (case r of
       Inl e \<Rightarrow> []
     | Inr report_markdown \<Rightarrow>
         if report_markdown = '''' then []
         else [SetReport report_markdown, Append report_event])"

definition final_outcome :: "exn + string \<Rightarrow> exn + unit" where
  "final_outcome r =
    (case r of
       Inl e \<Rightarrow> Inl e
     | Inr report_markdown \<Rightarrow>
         if report_markdown = '''' then Inl (ValueError empty_response_message)
         else Inr ())"

definition error_event :: "exn \<Rightarrow> event" where
  "error_event e =
     mk_event ''error'' (''An error occurred during report processing: '' @ str_exn e)"



text \<open>A file field counts as provided when it is present and has a non-empty filename.\<close>

definition provided :: "upload_file option \<Rightarrow> bool" where
  "provided f =
    (case f of
       None \<Rightarrow> False
     | Some u \<Rightarrow> (case filename u of None \<Rightarrow> False | Some name \<Rightarrow> name \<noteq> ''''))"



text \<open>
  The summary calls of the task, one after the other: the retry wrapper with three
  attempts on the prompt of each document, started on the clock that the call before it
  left, up to and including the first call that raises.  Each outcome is what the
  wrapper did and what it returned or raised.
\<close>

fun summary_calls ::
  "env \<Rightarrow> (string \<times> string) list \<Rightarrow> clock \<Rightarrow>
     (attempt_effect list \<times> (exn + string)) list \<times> clock" where
  "summary_calls env [] c = ([], c)"
| "summary_calls env (doc # docs) c =
    (case run_openai_with_retry env (summary_prompt (fst doc) (snd doc)) 3 c of
       (inner, Inl e, c1) \<Rightarrow> ([(inner, Inl e)], c1)
     | (inner, Inr summary, c1) \<Rightarrow>
         (case summary_calls env docs c1 of
            (outs, c2) \<Rightarrow> ((inner, Inr summary) # outs, c2)))"

definition summary_outcomes ::
  "env \<Rightarrow> (string \<times> string) list \<Rightarrow> clock \<Rightarrow> (attempt_effect list \<times> (exn + string)) list" where
  "summary_outcomes env fs c = fst (summary_calls env fs c)"

definition clock_after_summaries :: "env \<Rightarrow> (string \<times> string) list \<Rightarrow> clock \<Rightarrow> clock" where
  "clock_after_summaries env fs c = snd (summary_calls env fs c)"

text \<open>The exception of the first outcome that is one, and the summaries returned.\<close>

fun failure_of :: "(attempt_effect list \<times> (exn + string)) list \<Rightarrow> exn option" where
  "failure_of [] = None"
| "failure_of ((inner, Inl e) # outs) = Some e"
| "failure_of ((inner, Inr summary) # outs) = failure_of outs"

fun returned :: "(attempt_effect list \<times> (exn + string)) list \<Rightarrow> string list" where
  "returned [] = []"
| "returned ((inner, Inl e) # outs) = []"
| "returned ((inner, Inr summary) # outs) = summary # returned outs"

text \<open>
  The steps of the task for the documents, given the outcomes of their summary calls:
  for each document the status event naming the file and the call with three attempts
  on the prompt that embeds the filename and the text; after a call that returned, the
  pause of 5 before the next document; after a call that raised, nothing more.
\<close>

fun document_trace ::
  "(string \<times> string) list \<Rightarrow> (attempt_effect list \<times> (exn + string)) list \<Rightarrow> effect list" where
  "document_trace (doc # docs) ((inner, Inr summary) # outs) =
     [Append (mk_event ''status'' (''Summarizing file: '' @ fst doc @ ''...'')),
      Call (''Summarize all critical vulnerabilities from the file '' @ [CHR 0x27] @ fst doc
              @ [CHR 0x27] @ ''. TEXT: '' @ snd doc) 3 inner (Inr summary),
      Sleep 5] @ document_trace docs outs"
| "document_trace (doc # docs) ((inner, Inl e) # outs) =
     [Append (mk_event ''status'' (''Summarizing file: '' @ fst doc @ ''...'')),
      Call (''Summarize all critical vulnerabilities from the file '' @ [CHR 0x27] @ fst doc
              @ [CHR 0x27] @ ''. TEXT: '' @ snd doc) 3 inner (Inl e)]"
| "document_trace docs outs = []"

text \<open>The final call of the task: five attempts on the final prompt, after the summaries.\<close>

definition final_call ::
  "env \<Rightarrow> (string \<times> string) list \<Rightarrow> clock \<Rightarrow> attempt_effect list \<times> (exn + string) \<times> clock" where
  "final_call env fs c =
     run_openai_with_retry env (final_prompt_of fs (returned (summary_outcomes env fs c))) 5
       (clock_after_summaries env fs c)"

text \<open>How the task closes after its \<^verbatim>\<open>try\<close> block: the error event if any, and completion.\<close>

definition closing :: "exn + unit \<Rightarrow> effect list" where
  "closing r = (case r of Inr u \<Rightarrow> [SetComplete] | Inl e \<Rightarrow> [Append (error_event e), SetComplete])"

text \<open>The wrapper calls of a trace in full: prompt, attempts, what was done, outcome.\<close>

fun calls_in :: "effect list \<Rightarrow> (string \<times> int \<times> attempt_effect list \<times> (exn + string)) list" where
  "calls_in [] = []"
| "calls_in (Call prompt n inner r # es) = (prompt, n, inner, r) # calls_in es"
| "calls_in (Append e # es) = calls_in es"
| "calls_in (Sleep t # es) = calls_in es"
| "calls_in (SetReport r # es) = calls_in es"
| "calls_in (SetComplete # es) = calls_in es"

text \<open>
  The calls that the task is to make: for each document, in order, the wrapper with
  three attempts on its summary prompt, as far as the summary calls go; then, when none
  of them raised, the wrapper with five attempts on the final prompt.
\<close>

fun summary_call_records ::
  "(string \<times> string) list \<Rightarrow> (attempt_effect list \<times> (exn + string)) list \<Rightarrow>
     (string \<times> int \<times> attempt_effect list \<times> (exn + string)) list" where
  "summary_call_records (doc # docs) ((inner, Inr summary) # outs) =
     (summary_prompt (fst doc) (snd doc), 3, inner, Inr summary) # summary_call_records docs outs"
| "summary_call_records (doc # docs) ((inner, Inl e) # outs) =
     [(summary_prompt (fst doc) (snd doc), 3, inner, Inl e)]"
| "summary_call_records docs outs = []"

definition expected_calls ::
  "env \<Rightarrow> (string \<times> string) list \<Rightarrow> clock \<Rightarrow>
     (string \<times> int \<times> attempt_effect list \<times> (exn + string)) list" where
  "expected_calls env fs c =
     summary_call_records fs (summary_outcomes env fs c) @
       (case failure_of (summary_outcomes env fs c) of
          Some e \<Rightarrow> []
        | None \<Rightarrow>
            [(final_prompt_of fs (returned (summary_outcomes env fs c)), 5,
              fst (final_call env fs c), fst (snd (final_call env fs c)))])"

section \<open>Example inputs\<close>

definition clock0 :: clock where
  "clock0 = \<lparr>calls = 0, draws = 0\<rparr>"

definition flaky_env :: "nat \<Rightarrow> string \<Rightarrow> env" where
  "flaky_env k answer =
     \<lparr>completion = (\<lambda>n p. if n < k then Raises ''timeout'' else Returns (Some answer)),
      uniform = (\<lambda>n. 1 / 2)\<rparr>"


definition example_files :: "(string \<times> string) list" where
  "example_files = [(''a.txt'', ''Critical SQL injection in login'')]"

definition example_store :: store where
  "example_store = Map.empty(''job-0001-abcd'' \<mapsto> new_job example_files)"

definition example_upload :: upload_file where
  "example_upload = \<lparr>filename = Some ''b.txt'', file_bytes = []\<rparr>"

definition completed_store :: store where
  "completed_store =
     Map.empty(''job-0001-abcd'' \<mapsto> (new_job example_files)\<lparr>is_complete := True\<rparr>)"

definition uploaded_store :: store where
  "uploaded_store = completed_store(''job-0002-efgh'' \<mapsto> new_job [(''b.txt'', ''text'')])"

definition filtered_env :: env where
  "filtered_env =
     \<lparr>completion = (\<lambda>n p. if n < 1 then Returns (Some ''summary'') else Returns None),
      uniform = (\<lambda>n. 1 / 2)\<rparr>"

definition example_final :: job where
  "example_final =
     run_effects (new_job example_files)
       (fst (task_effects (flaky_env 1 ''ok'') example_files clock0))"

definition example_dumps :: "event \<Rightarrow> string" where
  "example_dumps e =
     (case kind e of None \<Rightarrow> '''' | Some k \<Rightarrow> k) @ '': ''
       @ (case content e of None \<Rightarrow> '''' | Some m \<Rightarrow> m)"




text \<open>
  The example job while its task waits for the answer to the final call: the first six
  effects are done, four status events stand in the sequence.
\<close>

definition example_waiting :: job where
  "example_waiting =
     run_effects (new_job example_files)
       (take 6 (fst (task_effects (flaky_env 1 ''ok'') example_files clock0)))"

text \<open>
  A stream whose first cycle finds the waiting job and yields its four events; the
  answer to the final call arrives while the generator is suspended at a
  \<^verbatim>\<open>yield\<close>, so that the generator resumes on the finished job.
\<close>

definition racing_polls :: "nat \<Rightarrow> poll" where
  "racing_polls n =
     \<lparr>disconnected = False,
      jobs_found = Map.empty(''job-0001-abcd'' \<mapsto> (if n = 0 then example_waiting else example_final)),
      job_resumed = example_final\<rparr>"

text \<open>A stream that no effect of the task interrupts.\<close>

definition calm_polls :: "nat \<Rightarrow> poll" where
  "calm_polls n =
     \<lparr>disconnected = False,
      jobs_found = Map.empty(''job-0001-abcd'' \<mapsto> (if n < 2 then example_waiting else example_final)),
      job_resumed = (if n < 2 then example_waiting else example_final)\<rparr>"




text \<open>An outside world whose first request returns and whose later requests all raise.\<close>

definition final_fails_env :: env where
  "final_fails_env =
     \<lparr>completion = (\<lambda>n p. if n < 1 then Returns (Some ''summary'') else Raises ''timeout''),
      uniform = (\<lambda>n. 1 / 2)\<rparr>"


section \<open>The retry wrapper: success after failures\<close>

lemma failed_attempts_0: "failed_attempts env prompt a d 0 = []"
  by (simp add: failed_attempts_def)

lemma upt_0_Suc: "[0..<Suc k] = 0 # map Suc [0..<k]"
  by (simp add: upt_conv_Cons map_Suc_upt del: upt_Suc)

lemma failed_attempts_Suc:
  "failed_attempts env prompt a d (Suc k) =
     Request prompt # Backoff (wait_time a (uniform env d))
       # failed_attempts env prompt (Suc a) (Suc d) k"
  by (simp add: failed_attempts_def upt_0_Suc comp_def del: upt_Suc)

lemma requests_failed_attempts:
  "requests (failed_attempts env prompt a d k @ es) = replicate k prompt @ requests es"
  by (induction k arbitrary: a d) (simp_all add: failed_attempts_0 failed_attempts_Suc)

lemma waits_failed_attempts:
  "waits (failed_attempts env prompt a d k @ [Request prompt]) =
     map (\<lambda>i. wait_time (a + i) (uniform env (d + i))) [0..<k]"
proof (induction k arbitrary: a d)
  case 0
  show ?case by (simp add: failed_attempts_0)
next
  case (Suc k)
  show ?case
    using Suc.IH [of "Suc a" "Suc d"]
    by (simp add: failed_attempts_Suc upt_0_Suc comp_def del: upt_Suc)
qed

lemma retry_loop_success:
  assumes "a + k < n"
    and "\<forall>i<k. \<exists>e. completion env (calls c + i) prompt = Raises e"
    and "completion env (calls c + k) prompt = Returns content_opt"
  shows "retry_loop env prompt (int n) [a..<n] c =
    (failed_attempts env prompt a (draws c) k @ [Request prompt],
     Inr (case content_opt of None \<Rightarrow> '''' | Some s \<Rightarrow> s),
     \<lparr>calls = calls c + k + 1, draws = draws c + k\<rparr>)"
  using assms
proof (induction k arbitrary: a c)
  case 0
  then have "[a..<n] = a # [Suc a..<n]"
    by (simp add: upt_conv_Cons)
  with 0 show ?case
    by (simp add: failed_attempts_0)
next
  case (Suc k)
  from Suc.prems(1) have range: "[a..<n] = a # [Suc a..<n]"
    by (simp add: upt_conv_Cons)
  from Suc.prems(2) have "\<exists>e. completion env (calls c + 0) prompt = Raises e"
    by blast
  then obtain e where first: "completion env (calls c) prompt = Raises e"
    by auto
  from Suc.prems(1) have not_last: "int a \<noteq> int n - 1"
    by linarith
  let ?c = "c\<lparr>calls := calls c + 1, draws := draws c + 1\<rparr>"
  have later: "\<forall>i<k. \<exists>e. completion env (calls ?c + i) prompt = Raises e"
  proof (intro allI impI)
    fix i assume "i < k"
    then have "\<exists>e. completion env (calls c + Suc i) prompt = Raises e"
      using Suc.prems(2) by (meson Suc_less_eq)
    then show "\<exists>e. completion env (calls ?c + i) prompt = Raises e"
      by simp
  qed
  have "retry_loop env prompt (int n) [Suc a..<n] ?c =
    (failed_attempts env prompt (Suc a) (draws ?c) k @ [Request prompt],
     Inr (case content_opt of None \<Rightarrow> '''' | Some s \<Rightarrow> s),
     \<lparr>calls = calls ?c + k + 1, draws = draws ?c + k\<rparr>)"
  proof (rule Suc.IH)
    show "Suc a + k < n" using Suc.prems(1) by simp
    show "\<forall>i<k. \<exists>e. completion env (calls ?c + i) prompt = Raises e"
      by (rule later)
    show "completion env (calls ?c + k) prompt = Returns content_opt"
      using Suc.prems(3) by simp
  qed
  with range first not_last show ?case
    by (simp add: failed_attempts_Suc)
qed

text \<open>
  Claim C4.  For every prompt and every \<open>max_attempts = N \<ge> 1\<close>: when the first \<open>k < N\<close>
  requests of a call raise and the next one returns, the wrapper returns the content of
  that response (the empty string for an absent content), has made exactly \<open>k + 1\<close>
  requests, and has waited between consecutive requests \<open>2 ^ attempt\<close> plus the draw of
  \<^verbatim>\<open>random.uniform(0, 1)\<close>, for the attempts \<open>0, ..., k - 1\<close>.  The least possible wait
  of attempt \<open>i\<close> is \<open>2 ^ i\<close>, which is strictly increasing.
\<close>

theorem retry_success_path:
  assumes "1 \<le> N" and "int k < N"
    and "\<forall>i<k. \<exists>e. completion env (calls c + i) prompt = Raises e"
    and "completion env (calls c + k) prompt = Returns content_opt"
    and "\<forall>n. 0 \<le> uniform env n \<and> uniform env n \<le> 1"
  shows "run_openai_with_retry env prompt N c =
      (failed_attempts env prompt 0 (draws c) k @ [Request prompt],
       Inr (case content_opt of None \<Rightarrow> '''' | Some s \<Rightarrow> s),
       \<lparr>calls = calls c + k + 1, draws = draws c + k\<rparr>)
    \<and> requests (fst (run_openai_with_retry env prompt N c)) = replicate (k + 1) prompt
    \<and> waits (fst (run_openai_with_retry env prompt N c)) =
        map (\<lambda>i. 2 ^ i + uniform env (draws c + i)) [0..<k]
    \<and> (\<forall>i<k. 2 ^ i \<le> waits (fst (run_openai_with_retry env prompt N c)) ! i)
    \<and> (\<forall>i. wait_time i 0 = 2 ^ i \<and> wait_time i 0 < wait_time (Suc i) 0)"
proof -
  from assms(1,2) have n: "int (nat N) = N" and k: "0 + k < nat N"
    by simp_all
  have run: "run_openai_with_retry env prompt N c =
      (failed_attempts env prompt 0 (draws c) k @ [Request prompt],
       Inr (case content_opt of None \<Rightarrow> '''' | Some s \<Rightarrow> s),
       \<lparr>calls = calls c + k + 1, draws = draws c + k\<rparr>)"
    using retry_loop_success [OF k assms(3,4)]
    unfolding run_openai_with_retry_def n by simp
  have reqs: "requests (fst (run_openai_with_retry env prompt N c)) = replicate (k + 1) prompt"
    by (simp add: run requests_failed_attempts replicate_append_same)
  have ws: "waits (fst (run_openai_with_retry env prompt N c)) =
        map (\<lambda>i. 2 ^ i + uniform env (draws c + i)) [0..<k]"
    by (simp add: run waits_failed_attempts wait_time_def)
  have lower: "\<forall>i<k. 2 ^ i \<le> waits (fst (run_openai_with_retry env prompt N c)) ! i"
    using assms(5) by (simp add: ws)
  have incr: "\<forall>i. wait_time i 0 = 2 ^ i \<and> wait_time i 0 < wait_time (Suc i) 0"
    by (simp add: wait_time_def)
  from run reqs ws lower incr show ?thesis
    by blast
qed

theorem retry_success_path_witness:
  "run_openai_with_retry (flaky_env 2 ''ok'') ''p'' 3 clock0 =
     ([Request ''p'', Backoff (3 / 2), Request ''p'', Backoff (5 / 2), Request ''p''],
      Inr ''ok'', \<lparr>calls = 3, draws = 2\<rparr>)
   \<and> requests (fst (run_openai_with_retry (flaky_env 2 ''ok'') ''p'' 3 clock0)) = [''p'', ''p'', ''p'']
   \<and> waits (fst (run_openai_with_retry (flaky_env 2 ''ok'') ''p'' 3 clock0)) = [3 / 2, 5 / 2]"
proof -
  have h1: "(1::int) \<le> 3" and h2: "int 2 < 3" by simp_all
  have h3: "\<forall>i<2. \<exists>e. completion (flaky_env 2 ''ok'') (calls clock0 + i) ''p'' = Raises e"
    by (simp add: flaky_env_def clock0_def)
  have h4: "completion (flaky_env 2 ''ok'') (calls clock0 + 2) ''p'' = Returns (Some ''ok'')"
    by (simp add: flaky_env_def clock0_def)
  have h5: "\<forall>n. 0 \<le> uniform (flaky_env 2 ''ok'') n \<and> uniform (flaky_env 2 ''ok'') n \<le> 1"
    by (simp add: flaky_env_def)
  have two: "[0..<2] = [0, Suc 0]"
    by (simp add: upt_conv_Cons)
  show ?thesis
    using retry_success_path [OF h1 h2 h3 h4 h5]
    by (simp add: failed_attempts_def wait_time_def flaky_env_def clock0_def two
        numeral_2_eq_2 numeral_3_eq_3)
qed

lemma retry_loop_exhausted:
  assumes "a + Suc k = n"
    and "\<forall>i<k. \<exists>e. completion env (calls c + i) prompt = Raises e"
    and "completion env (calls c + k) prompt = Raises e"
  shows "retry_loop env prompt (int n) [a..<n] c =
    (failed_attempts env prompt a (draws c) k @ [Request prompt],
     Inl (Exception e),
     \<lparr>calls = calls c + k + 1, draws = draws c + k\<rparr>)"
  using assms
proof (induction k arbitrary: a c)
  case 0
  then have "[a..<n] = [a]" and "int a = int n - 1"
    by auto
  with 0 show ?case
    by (simp add: failed_attempts_0)
next
  case (Suc k)
  from Suc.prems(1) have range: "[a..<n] = a # [Suc a..<n]"
    by (simp add: upt_conv_Cons)
  from Suc.prems(2) have "\<exists>e. completion env (calls c + 0) prompt = Raises e"
    by blast
  then obtain e0 where first: "completion env (calls c) prompt = Raises e0"
    by auto
  from Suc.prems(1) have not_last: "int a \<noteq> int n - 1"
    by linarith
  let ?c = "c\<lparr>calls := calls c + 1, draws := draws c + 1\<rparr>"
  have later: "\<forall>i<k. \<exists>e. completion env (calls ?c + i) prompt = Raises e"
  proof (intro allI impI)
    fix i assume "i < k"
    then have "\<exists>e. completion env (calls c + Suc i) prompt = Raises e"
      using Suc.prems(2) by (meson Suc_less_eq)
    then show "\<exists>e. completion env (calls ?c + i) prompt = Raises e"
      by simp
  qed
  have "retry_loop env prompt (int n) [Suc a..<n] ?c =
    (failed_attempts env prompt (Suc a) (draws ?c) k @ [Request prompt],
     Inl (Exception e),
     \<lparr>calls = calls ?c + k + 1, draws = draws ?c + k\<rparr>)"
  proof (rule Suc.IH)
    show "Suc a + Suc k = n" using Suc.prems(1) by simp
    show "\<forall>i<k. \<exists>e. completion env (calls ?c + i) prompt = Raises e"
      by (rule later)
    show "completion env (calls ?c + k) prompt = Raises e"
      using Suc.prems(3) by simp
  qed
  with range first not_last show ?case
    by (simp add: failed_attempts_Suc)
qed

section \<open>The shape of the task's trace\<close>

text \<open>The shape of the loop over the files.\<close>

lemma call_with_retry_Call:
  "call_with_retry env prompt n c = (call, r, c') \<Longrightarrow> \<exists>inner. call = Call prompt n inner r"
  by (auto simp: call_with_retry_def split: prod.splits)

lemma summarize_files_shape:
  "\<exists>inners summaries.
     length inners = length summaries \<and>
     ((length summaries = length fs \<and>
       fst (summarize_files env fs acc c) = documents_steps fs inners summaries \<and>
       fst (snd (summarize_files env fs acc c)) = Inr (acc @ tagged_summaries fs summaries))
      \<or>
      (length summaries < length fs \<and>
       (\<exists>inner e.
          fst (summarize_files env fs acc c) =
            documents_steps (take (length summaries) fs) inners summaries @
              [Append (mk_event ''status''
                 (''Summarizing file: '' @ fst (fs ! length summaries) @ ''...'')),
               Call (summary_prompt (fst (fs ! length summaries)) (snd (fs ! length summaries)))
                 3 inner (Inl e)] \<and>
          fst (snd (summarize_files env fs acc c)) = Inl e)))"
proof (induction fs arbitrary: acc c)
  case Nil
  have "length ([] :: attempt_effect list list) = length ([] :: string list)
      \<and> length ([] :: string list) = length ([] :: (string \<times> string) list)
      \<and> fst (summarize_files env [] acc c) = documents_steps [] [] []
      \<and> fst (snd (summarize_files env [] acc c)) = Inr (acc @ tagged_summaries [] [])"
    by simp
  then show ?case by blast
next
  case (Cons doc fs)
  obtain filename content_str where doc: "doc = (filename, content_str)"
    by (cases doc)
  obtain call r c1 where cw: "call_with_retry env (summary_prompt filename content_str) 3 c = (call, r, c1)"
    by (cases "call_with_retry env (summary_prompt filename content_str) 3 c")
  then obtain inner where call: "call = Call (summary_prompt filename content_str) 3 inner r"
    using call_with_retry_Call by blast
  show ?case
  proof (cases r)
    case (Inl e)
    have "fst (summarize_files env (doc # fs) acc c) =
        documents_steps (take (length ([] :: string list)) (doc # fs)) [] [] @
          [Append (mk_event ''status''
             (''Summarizing file: '' @ fst ((doc # fs) ! length ([] :: string list)) @ ''...'')),
           Call (summary_prompt (fst ((doc # fs) ! length ([] :: string list)))
                  (snd ((doc # fs) ! length ([] :: string list)))) 3 inner (Inl e)]"
      and "fst (snd (summarize_files env (doc # fs) acc c)) = Inl e"
      using doc cw call Inl
      by (simp_all add: update_status_def summarizing_message_def)
    moreover have "length ([] :: attempt_effect list list) = length ([] :: string list)"
      and "length ([] :: string list) < length (doc # fs)"
      by simp_all
    ultimately show ?thesis by blast
  next
    case (Inr summary)
    let ?acc = "acc @ [tagged_summary filename summary]"
    from Cons.IH [of ?acc c1] obtain inners summaries where
      len: "length inners = length summaries" and
      alt: "(length summaries = length fs \<and>
         fst (summarize_files env fs ?acc c1) = documents_steps fs inners summaries \<and>
         fst (snd (summarize_files env fs ?acc c1)) = Inr (?acc @ tagged_summaries fs summaries))
        \<or>
        (length summaries < length fs \<and>
         (\<exists>inner e.
            fst (summarize_files env fs ?acc c1) =
              documents_steps (take (length summaries) fs) inners summaries @
                [Append (mk_event ''status''
                   (''Summarizing file: '' @ fst (fs ! length summaries) @ ''...'')),
                 Call (summary_prompt (fst (fs ! length summaries)) (snd (fs ! length summaries)))
                   3 inner (Inl e)] \<and>
            fst (snd (summarize_files env fs ?acc c1)) = Inl e))"
      by blast
    have step: "fst (summarize_files env (doc # fs) acc c) =
        document_steps doc inner summary @ fst (summarize_files env fs ?acc c1)"
      and res: "fst (snd (summarize_files env (doc # fs) acc c)) =
        fst (snd (summarize_files env fs ?acc c1))"
      using doc cw call Inr
      by (simp_all add: update_status_def summarizing_message_def document_steps_def
          split: prod.splits)
    have len': "length (inner # inners) = length (summary # summaries)"
      using len by simp
    from alt show ?thesis
    proof
      assume ok: "length summaries = length fs \<and>
         fst (summarize_files env fs ?acc c1) = documents_steps fs inners summaries \<and>
         fst (snd (summarize_files env fs ?acc c1)) = Inr (?acc @ tagged_summaries fs summaries)"
      have "length (summary # summaries) = length (doc # fs)
        \<and> fst (summarize_files env (doc # fs) acc c) =
            documents_steps (doc # fs) (inner # inners) (summary # summaries)
        \<and> fst (snd (summarize_files env (doc # fs) acc c)) =
            Inr (acc @ tagged_summaries (doc # fs) (summary # summaries))"
        using ok step res doc by (simp add: tagged_summary_def)
      with len' show ?thesis by blast
    next
      assume bad: "length summaries < length fs \<and>
         (\<exists>inner e.
            fst (summarize_files env fs ?acc c1) =
              documents_steps (take (length summaries) fs) inners summaries @
                [Append (mk_event ''status''
                   (''Summarizing file: '' @ fst (fs ! length summaries) @ ''...'')),
                 Call (summary_prompt (fst (fs ! length summaries)) (snd (fs ! length summaries)))
                   3 inner (Inl e)] \<and>
            fst (snd (summarize_files env fs ?acc c1)) = Inl e)"
      then obtain inner' e where
        t: "fst (summarize_files env fs ?acc c1) =
              documents_steps (take (length summaries) fs) inners summaries @
                [Append (mk_event ''status''
                   (''Summarizing file: '' @ fst (fs ! length summaries) @ ''...'')),
                 Call (summary_prompt (fst (fs ! length summaries)) (snd (fs ! length summaries)))
                   3 inner' (Inl e)]"
        and r: "fst (snd (summarize_files env fs ?acc c1)) = Inl e"
        by blast
      have "length (summary # summaries) < length (doc # fs)"
        using bad by simp
      moreover have "fst (summarize_files env (doc # fs) acc c) =
          documents_steps (take (length (summary # summaries)) (doc # fs))
              (inner # inners) (summary # summaries) @
            [Append (mk_event ''status''
               (''Summarizing file: '' @ fst ((doc # fs) ! length (summary # summaries)) @ ''...'')),
             Call (summary_prompt (fst ((doc # fs) ! length (summary # summaries)))
                    (snd ((doc # fs) ! length (summary # summaries)))) 3 inner' (Inl e)]"
        using step t by simp
      moreover have "fst (snd (summarize_files env (doc # fs) acc c)) = Inl e"
        using res r by simp
      ultimately show ?thesis using len' by blast
    qed
  qed
qed

lemma try_block_shape:
  "\<exists>inners summaries.
     length inners = length summaries \<and>
     ((length summaries = length fs \<and>
       (\<exists>inner r.
          fst (try_block env fs c) =
            Append starting_event # documents_steps fs inners summaries @
              [Append generating_event,
               Append (token_event (final_prompt_of fs summaries)),
               Call (final_prompt_of fs summaries) 5 inner r] @ final_steps r \<and>
          fst (snd (try_block env fs c)) = final_outcome r))
      \<or>
      (length summaries < length fs \<and>
       (\<exists>inner e.
          fst (try_block env fs c) =
            Append starting_event # documents_steps (take (length summaries) fs) inners summaries @
              [Append (mk_event ''status''
                 (''Summarizing file: '' @ fst (fs ! length summaries) @ ''...'')),
               Call (summary_prompt (fst (fs ! length summaries)) (snd (fs ! length summaries)))
                 3 inner (Inl e)] \<and>
          fst (snd (try_block env fs c)) = Inl e)))"
proof -
  obtain t1 r1 c1 where sf: "summarize_files env fs [] c = (t1, r1, c1)"
    by (cases "summarize_files env fs [] c")
  from summarize_files_shape [of fs env "[]" c] obtain inners summaries where
    len: "length inners = length summaries" and
    alt: "(length summaries = length fs \<and>
       t1 = documents_steps fs inners summaries \<and>
       r1 = Inr (tagged_summaries fs summaries))
      \<or>
      (length summaries < length fs \<and>
       (\<exists>inner e.
          t1 =
            documents_steps (take (length summaries) fs) inners summaries @
              [Append (mk_event ''status''
                 (''Summarizing file: '' @ fst (fs ! length summaries) @ ''...'')),
               Call (summary_prompt (fst (fs ! length summaries)) (snd (fs ! length summaries)))
                 3 inner (Inl e)] \<and>
          r1 = Inl e))"
    unfolding sf by auto
  from alt show ?thesis
  proof
    assume ok: "length summaries = length fs \<and>
       t1 = documents_steps fs inners summaries \<and>
       r1 = Inr (tagged_summaries fs summaries)"
    let ?fp = "final_prompt_of fs summaries"
    obtain call r c2 where cw: "call_with_retry env ?fp 5 c1 = (call, r, c2)"
      by (cases "call_with_retry env ?fp 5 c1")
    then obtain inner where call: "call = Call ?fp 5 inner r"
      using call_with_retry_Call by blast
    have "fst (try_block env fs c) =
            Append starting_event # documents_steps fs inners summaries @
              [Append generating_event, Append (token_event ?fp), Call ?fp 5 inner r]
              @ final_steps r
          \<and> fst (snd (try_block env fs c)) = final_outcome r"
      using ok sf cw call
      by (cases r)
        (simp_all add: try_block_def Let_def update_status_def starting_event_def
          generating_event_def token_event_def token_message_def count_tokens_def
          final_prompt_of_def final_steps_def final_outcome_def report_event_def
          del: append.simps)
    with len ok show ?thesis by blast
  next
    assume bad: "length summaries < length fs \<and>
       (\<exists>inner e.
          t1 =
            documents_steps (take (length summaries) fs) inners summaries @
              [Append (mk_event ''status''
                 (''Summarizing file: '' @ fst (fs ! length summaries) @ ''...'')),
               Call (summary_prompt (fst (fs ! length summaries)) (snd (fs ! length summaries)))
                 3 inner (Inl e)] \<and>
          r1 = Inl e)"
    then obtain inner e where
      t: "t1 =
            documents_steps (take (length summaries) fs) inners summaries @
              [Append (mk_event ''status''
                 (''Summarizing file: '' @ fst (fs ! length summaries) @ ''...'')),
               Call (summary_prompt (fst (fs ! length summaries)) (snd (fs ! length summaries)))
                 3 inner (Inl e)]"
      and r: "r1 = Inl e"
      by blast
    have "fst (try_block env fs c) =
            Append starting_event # documents_steps (take (length summaries) fs) inners summaries @
              [Append (mk_event ''status''
                 (''Summarizing file: '' @ fst (fs ! length summaries) @ ''...'')),
               Call (summary_prompt (fst (fs ! length summaries)) (snd (fs ! length summaries)))
                 3 inner (Inl e)]
        \<and> fst (snd (try_block env fs c)) = Inl e"
      using sf t r
      by (simp add: try_block_def Let_def update_status_def starting_event_def)
    with len bad show ?thesis by blast
  qed
qed

section \<open>Effects on the job\<close>

lemma run_effects_Nil: "run_effects j [] = j"
  by (simp add: run_effects_def)

lemma run_effects_Cons: "run_effects j (e # es) = run_effects (apply_effect j e) es"
  by (simp add: run_effects_def)

lemma run_effects_append: "run_effects j (a @ b) = run_effects (run_effects j a) b"
  by (simp add: run_effects_def)

lemma job_states_append:
  "job_states j (a @ b) = job_states j a @ tl (job_states (run_effects j a) b)"
proof (induction a arbitrary: j)
  case Nil
  show ?case by (cases b) (simp_all add: run_effects_Nil)
next
  case (Cons e a)
  then show ?case by (simp add: run_effects_Cons)
qed


lemma quiet_apply:
  assumes "quiet e"
  shows "report_content (apply_effect j e) = report_content j"
    and "is_complete (apply_effect j e) = is_complete j"
    and "files (apply_effect j e) = files j"
    and "report_events (apply_effect j e) = report_events j"
  using assms by (cases e; simp add: report_events_def is_report_def)+

lemma quiet_run:
  assumes "list_all quiet es"
  shows "report_content (run_effects j es) = report_content j"
    and "is_complete (run_effects j es) = is_complete j"
    and "files (run_effects j es) = files j"
    and "report_events (run_effects j es) = report_events j"
  using assms
  by (induction es arbitrary: j) (simp_all add: run_effects_Nil run_effects_Cons quiet_apply)

lemma quiet_states:
  assumes "list_all quiet es" and "s \<in> set (job_states j es)"
  shows "report_content s = report_content j \<and> is_complete s = is_complete j
    \<and> report_events s = report_events j"
  using assms
proof (induction es arbitrary: j)
  case Nil
  then show ?case by simp
next
  case (Cons e es)
  from Cons.prems(1) have e: "quiet e" and es: "list_all quiet es"
    by simp_all
  from Cons.prems(2) have "s = j \<or> s \<in> set (job_states (apply_effect j e) es)"
    by simp
  then show ?case
  proof
    assume "s = j"
    then show ?thesis by simp
  next
    assume "s \<in> set (job_states (apply_effect j e) es)"
    with Cons.IH [OF es] have "report_content s = report_content (apply_effect j e)
      \<and> is_complete s = is_complete (apply_effect j e)
      \<and> report_events s = report_events (apply_effect j e)"
      by blast
    with quiet_apply [OF e] show ?thesis by simp
  qed
qed

lemma documents_steps_quiet: "list_all quiet (documents_steps fs inners summaries)"
  by (induction fs inners summaries rule: documents_steps.induct)
    (simp_all add: document_steps_def mk_event_def kind_def)

lemma documents_steps_attempts:
  "(p, n) \<in> set (call_args (documents_steps fs inners summaries)) \<Longrightarrow> n = 3"
  by (induction fs inners summaries rule: documents_steps.induct)
    (auto simp: document_steps_def)

lemma call_args_append: "call_args (a @ b) = call_args a @ call_args b"
  by (induction a rule: call_args.induct) simp_all

lemma call_args_mem: "Call p n inner r \<in> set es \<Longrightarrow> (p, n) \<in> set (call_args es)"
  by (induction es rule: call_args.induct) auto

lemma status_events_quiet:
  "kind starting_event = Some ''status''" "kind generating_event = Some ''status''"
  "kind (token_event p) = Some ''status''" "kind (mk_event ''status'' m) = Some ''status''"
  by (simp_all add: starting_event_def generating_event_def token_event_def mk_event_def kind_def)

lemma no_call_with_five:
  assumes "\<forall>p n i x. Call p n i x \<in> set es \<longrightarrow> n = 3"
  shows "\<not> (\<exists>p i. Call p 5 i (Inr '''') \<in> set es)"
proof
  assume "\<exists>p i. Call p 5 i (Inr '''') \<in> set es"
  then obtain p i where "Call p 5 i (Inr '''') \<in> set es"
    by blast
  with assms have "(5::int) = 3"
    by blast
  then show False by simp
qed

text \<open>The two ways the task can end.\<close>

lemma task_effects_cases:
  "(\<exists>pre fp inner r.
      list_all quiet pre \<and> r \<noteq> '''' \<and>
      (\<forall>p n i x. Call p n i x \<in> set pre \<longrightarrow> n = 3) \<and>
      fst (task_effects env fs c) =
        pre @ [Call fp 5 inner (Inr r), SetReport r, Append report_event, SetComplete] \<and>
      fst (snd (try_block env fs c)) = Inr ())
   \<or>
   (\<exists>pre e.
      list_all quiet pre \<and>
      fst (task_effects env fs c) = pre @ [Append (error_event e), SetComplete] \<and>
      fst (snd (try_block env fs c)) = Inl e \<and>
      ((\<exists>p i. Call p 5 i (Inr '''') \<in> set pre) \<longrightarrow> e = ValueError empty_response_message))"
proof -
  obtain t r c' where tb: "try_block env fs c = (t, r, c')"
    by (cases "try_block env fs c")
  have te: "fst (task_effects env fs c) =
      t @ (case r of Inr u \<Rightarrow> [SetComplete] | Inl e \<Rightarrow> [Append (error_event e), SetComplete])"
    by (cases r) (simp_all add: task_effects_def tb update_status_def error_event_def error_message_def)
  have "\<exists>inners summaries.
     length inners = length summaries \<and>
     ((length summaries = length fs \<and>
       (\<exists>inner r'.
          t = Append starting_event # documents_steps fs inners summaries @
              [Append generating_event,
               Append (token_event (final_prompt_of fs summaries)),
               Call (final_prompt_of fs summaries) 5 inner r'] @ final_steps r' \<and>
          r = final_outcome r'))
      \<or>
      (length summaries < length fs \<and>
       (\<exists>inner e.
          t = Append starting_event # documents_steps (take (length summaries) fs) inners summaries @
              [Append (mk_event ''status''
                 (''Summarizing file: '' @ fst (fs ! length summaries) @ ''...'')),
               Call (summary_prompt (fst (fs ! length summaries)) (snd (fs ! length summaries)))
                 3 inner (Inl e)] \<and>
          r = Inl e)))"
    using try_block_shape [of fs env c] unfolding tb fst_conv snd_conv .
  then obtain inners summaries where
    alt: "(length summaries = length fs \<and>
       (\<exists>inner r'.
          t = Append starting_event # documents_steps fs inners summaries @
              [Append generating_event,
               Append (token_event (final_prompt_of fs summaries)),
               Call (final_prompt_of fs summaries) 5 inner r'] @ final_steps r' \<and>
          r = final_outcome r'))
      \<or>
      (length summaries < length fs \<and>
       (\<exists>inner e.
          t = Append starting_event # documents_steps (take (length summaries) fs) inners summaries @
              [Append (mk_event ''status''
                 (''Summarizing file: '' @ fst (fs ! length summaries) @ ''...'')),
               Call (summary_prompt (fst (fs ! length summaries)) (snd (fs ! length summaries)))
                 3 inner (Inl e)] \<and>
          r = Inl e))"
    by blast
  from alt show ?thesis
  proof
    assume "length summaries = length fs \<and>
       (\<exists>inner r'.
          t = Append starting_event # documents_steps fs inners summaries @
              [Append generating_event,
               Append (token_event (final_prompt_of fs summaries)),
               Call (final_prompt_of fs summaries) 5 inner r'] @ final_steps r' \<and>
          r = final_outcome r')"
    then obtain inner r' where
      t: "t = Append starting_event # documents_steps fs inners summaries @
              [Append generating_event,
               Append (token_event (final_prompt_of fs summaries)),
               Call (final_prompt_of fs summaries) 5 inner r'] @ final_steps r'"
      and r: "r = final_outcome r'"
      by blast
    let ?fp = "final_prompt_of fs summaries"
    let ?pre = "Append starting_event # documents_steps fs inners summaries @
              [Append generating_event, Append (token_event ?fp)]"
    have q: "list_all quiet ?pre"
      by (simp add: documents_steps_quiet status_events_quiet)
    have three: "\<forall>p n i x. Call p n i x \<in> set ?pre \<longrightarrow> n = 3"
    proof (intro allI impI)
      fix p n i x assume "Call p n i x \<in> set ?pre"
      then have "(p, n) \<in> set (call_args ?pre)"
        by (rule call_args_mem)
      then have "(p, n) \<in> set (call_args (documents_steps fs inners summaries))"
        by (simp add: call_args_append)
      then show "n = 3" by (rule documents_steps_attempts)
    qed
    show ?thesis
    proof (cases r')
      case (Inl e)
      have q': "list_all quiet (?pre @ [Call ?fp 5 inner (Inl e)])"
        using q by simp
      have "fst (task_effects env fs c) =
          (?pre @ [Call ?fp 5 inner (Inl e)]) @ [Append (error_event e), SetComplete]"
        using te t r Inl by (simp add: final_steps_def final_outcome_def)
      moreover have "fst (snd (try_block env fs c)) = Inl e"
        using tb r Inl by (simp add: final_outcome_def)
      moreover have "(\<exists>p i. Call p 5 i (Inr '''') \<in> set (?pre @ [Call ?fp 5 inner (Inl e)]))
          \<longrightarrow> e = ValueError empty_response_message"
        using no_call_with_five [OF three] by auto
      ultimately show ?thesis using q' by blast
    next
      case (Inr report)
      show ?thesis
      proof (cases "report = ''''")
        case True
        let ?e = "ValueError empty_response_message"
        have q': "list_all quiet (?pre @ [Call ?fp 5 inner (Inr report)])"
          using q by simp
        have "fst (task_effects env fs c) =
            (?pre @ [Call ?fp 5 inner (Inr report)]) @ [Append (error_event ?e), SetComplete]"
          using te t r Inr True by (simp add: final_steps_def final_outcome_def)
        moreover have "fst (snd (try_block env fs c)) = Inl ?e"
          using tb r Inr True by (simp add: final_outcome_def)
        ultimately show ?thesis using q' by blast
      next
        case False
        have "fst (task_effects env fs c) =
            ?pre @ [Call ?fp 5 inner (Inr report), SetReport report, Append report_event, SetComplete]"
          using te t r Inr False by (simp add: final_steps_def final_outcome_def)
        moreover have "fst (snd (try_block env fs c)) = Inr ()"
          using tb r Inr False by (simp add: final_outcome_def)
        ultimately show ?thesis using q three False by blast
      qed
    qed
  next
    assume "length summaries < length fs \<and>
       (\<exists>inner e.
          t = Append starting_event # documents_steps (take (length summaries) fs) inners summaries @
              [Append (mk_event ''status''
                 (''Summarizing file: '' @ fst (fs ! length summaries) @ ''...'')),
               Call (summary_prompt (fst (fs ! length summaries)) (snd (fs ! length summaries)))
                 3 inner (Inl e)] \<and>
          r = Inl e)"
    then obtain inner e where
      t: "t = Append starting_event # documents_steps (take (length summaries) fs) inners summaries @
              [Append (mk_event ''status''
                 (''Summarizing file: '' @ fst (fs ! length summaries) @ ''...'')),
               Call (summary_prompt (fst (fs ! length summaries)) (snd (fs ! length summaries)))
                 3 inner (Inl e)]"
      and r: "r = Inl e"
      by blast
    have q: "list_all quiet t"
      unfolding t by (simp add: documents_steps_quiet status_events_quiet)
    have three: "\<forall>p n i x. Call p n i x \<in> set t \<longrightarrow> n = 3"
    proof (intro allI impI)
      fix p n i x assume "Call p n i x \<in> set t"
      then have "(p, n) \<in> set (call_args t)"
        by (rule call_args_mem)
      then have "(p, n) \<in> set (call_args (documents_steps (take (length summaries) fs) inners summaries))
          \<or> n = 3"
        unfolding t by (auto simp: call_args_append)
      then show "n = 3" using documents_steps_attempts by blast
    qed
    have "fst (task_effects env fs c) = t @ [Append (error_event e), SetComplete]"
      using te r by simp
    moreover have "fst (snd (try_block env fs c)) = Inl e"
      using tb r by simp
    moreover have "(\<exists>p i. Call p 5 i (Inr '''') \<in> set t) \<longrightarrow> e = ValueError empty_response_message"
      using no_call_with_five [OF three] by auto
    ultimately show ?thesis using q by blast
  qed
qed

text \<open>The trace of a task whose first request fails once.\<close>

lemma example_trace:
  "fst (task_effects (flaky_env 1 ''ok'') example_files clock0) =
     [Append starting_event,
      Append (mk_event ''status'' ''Summarizing file: a.txt...''),
      Call (summary_prompt ''a.txt'' ''Critical SQL injection in login'') 3
        [Request (summary_prompt ''a.txt'' ''Critical SQL injection in login''),
         Backoff (3 / 2),
         Request (summary_prompt ''a.txt'' ''Critical SQL injection in login'')]
        (Inr ''ok''),
      Sleep 5,
      Append generating_event,
      Append (token_event (final_prompt_of example_files [''ok''])),
      Call (final_prompt_of example_files [''ok'']) 5
        [Request (final_prompt_of example_files [''ok''])] (Inr ''ok''),
      SetReport ''ok'',
      Append report_event,
      SetComplete]"
  by (simp add: task_effects_def try_block_def Let_def call_with_retry_def
      run_openai_with_retry_def flaky_env_def example_files_def clock0_def
      update_status_def summarizing_message_def tagged_summary_def wait_time_def
      starting_event_def generating_event_def token_event_def token_message_def
      count_tokens_def final_prompt_of_def report_event_def upt_conv_Cons)

section \<open>How the task leaves the job\<close>

lemma process_report_task_known:
  "jobs job_id = Some j \<Longrightarrow>
   process_report_task env job_id jobs c =
     Inr (jobs(job_id \<mapsto> run_effects j (fst (task_effects env (files j) c))),
          snd (task_effects env (files j) c))"
  by (simp add: process_report_task_def split: prod.splits)



lemma failure_tail:
  "report_content (run_effects j [Append (error_event e), SetComplete]) = report_content j"
  "is_complete (run_effects j [Append (error_event e), SetComplete])"
  "report_events (run_effects j [Append (error_event e), SetComplete]) = report_events j"
  "last (status_updates (run_effects j [Append (error_event e), SetComplete])) = error_event e"
  by (simp_all add: run_effects_def report_events_def is_report_def error_event_def
      kind_def mk_event_def)


lemma download_none:
  "jobs job_id = Some s \<Longrightarrow> report_content s = None \<Longrightarrow>
   download_report save jobs job_id =
     Inl (HTTPException 404 ''Report not found or not yet complete.'')"
  by (simp add: download_report_def not_found_report_def)

lemma example_store_job: "example_store ''job-0001-abcd'' = Some (new_job example_files)"
  by (simp add: example_store_def)

lemma new_job_fields:
  "files (new_job fc) = fc" "status_updates (new_job fc) = []"
  "\<not> is_complete (new_job fc)" "report_content (new_job fc) = None"
  "report_events (new_job fc) = []"
  by (simp_all add: new_job_def report_events_def)


section \<open>The exact trace of the task\<close>

lemma summarize_files_exact:
  "summarize_files env fs acc c =
     (document_trace fs (summary_outcomes env fs c),
      (case failure_of (summary_outcomes env fs c) of
         Some e \<Rightarrow> Inl e
       | None \<Rightarrow> Inr (acc @ tagged_summaries fs (returned (summary_outcomes env fs c)))),
      clock_after_summaries env fs c)"
proof (induction fs arbitrary: acc c)
  case Nil
  show ?case
    by (simp add: summary_outcomes_def clock_after_summaries_def)
next
  case (Cons doc fs)
  obtain filename content_str where doc: "doc = (filename, content_str)"
    by (cases doc)
  obtain inner r c1 where
    run: "run_openai_with_retry env (summary_prompt filename content_str) 3 c = (inner, r, c1)"
    by (cases "run_openai_with_retry env (summary_prompt filename content_str) 3 c")
  show ?case
  proof (cases r)
    case (Inl e)
    with doc run show ?thesis
      by (simp add: summary_outcomes_def clock_after_summaries_def call_with_retry_def
          update_status_def summarizing_message_def summary_prompt_def)
  next
    case (Inr summary)
    obtain outs c2 where rest: "summary_calls env fs c1 = (outs, c2)"
      by (cases "summary_calls env fs c1")
    then have o: "summary_outcomes env fs c1 = outs" and k: "clock_after_summaries env fs c1 = c2"
      by (simp_all add: summary_outcomes_def clock_after_summaries_def)
    have ih: "summarize_files env fs (acc @ [tagged_summary filename summary]) c1 =
        (document_trace fs outs,
         (case failure_of outs of
            Some e \<Rightarrow> Inl e
          | None \<Rightarrow> Inr ((acc @ [tagged_summary filename summary]) @ tagged_summaries fs (returned outs))),
         c2)"
      using Cons.IH [of "acc @ [tagged_summary filename summary]" c1] unfolding o k .
    have o': "summary_outcomes env (doc # fs) c = (inner, Inr summary) # outs"
      and k': "clock_after_summaries env (doc # fs) c = c2"
      using doc run Inr rest
      by (simp_all add: summary_outcomes_def clock_after_summaries_def)
    show ?thesis
      unfolding o' k'
      using doc run Inr ih
      by (simp add: call_with_retry_def update_status_def summarizing_message_def
          summary_prompt_def tagged_summary_def split: option.splits)
  qed
qed

lemma summary_calls_length:
  "length (fst (summary_calls env fs c)) \<le> length fs
    \<and> (failure_of (fst (summary_calls env fs c)) = None \<longrightarrow>
         length (fst (summary_calls env fs c)) = length fs
         \<and> length (returned (fst (summary_calls env fs c))) = length fs)"
proof (induction fs arbitrary: c)
  case Nil
  show ?case by simp
next
  case (Cons doc fs)
  obtain inner r c1 where
    run: "run_openai_with_retry env (summary_prompt (fst doc) (snd doc)) 3 c = (inner, r, c1)"
    by (cases "run_openai_with_retry env (summary_prompt (fst doc) (snd doc)) 3 c")
  show ?case
  proof (cases r)
    case (Inl e)
    with run show ?thesis by simp
  next
    case (Inr summary)
    obtain outs c2 where rest: "summary_calls env fs c1 = (outs, c2)"
      by (cases "summary_calls env fs c1")
    with Cons.IH [of c1] run Inr show ?thesis
      by simp
  qed
qed

lemma summary_outcomes_length:
  "length (summary_outcomes env fs c) \<le> length fs"
  "failure_of (summary_outcomes env fs c) = None \<Longrightarrow> length (summary_outcomes env fs c) = length fs"
  "failure_of (summary_outcomes env fs c) = None \<Longrightarrow>
     length (returned (summary_outcomes env fs c)) = length fs"
  using summary_calls_length [of env fs c]
  by (simp_all add: summary_outcomes_def)

lemma try_block_exact:
  "fst (try_block env fs c) =
     Append starting_event # document_trace fs (summary_outcomes env fs c) @
       (case failure_of (summary_outcomes env fs c) of
          Some e \<Rightarrow> []
        | None \<Rightarrow>
            [Append generating_event,
             Append (token_event (final_prompt_of fs (returned (summary_outcomes env fs c)))),
             Call (final_prompt_of fs (returned (summary_outcomes env fs c))) 5
               (fst (final_call env fs c)) (fst (snd (final_call env fs c)))]
            @ final_steps (fst (snd (final_call env fs c))))"
  "fst (snd (try_block env fs c)) =
     (case failure_of (summary_outcomes env fs c) of
        Some e \<Rightarrow> Inl e
      | None \<Rightarrow> final_outcome (fst (snd (final_call env fs c))))"
proof -
  let ?outs = "summary_outcomes env fs c"
  let ?fp = "final_prompt_of fs (returned ?outs)"
  obtain inner r c2 where fc: "final_call env fs c = (inner, r, c2)"
    by (cases "final_call env fs c")
  then have run: "run_openai_with_retry env
      (PROMPT_TEMPLATE_format (join ''\<newline>\<newline>'' (tagged_summaries fs (returned ?outs)))) 5
      (clock_after_summaries env fs c) = (inner, r, c2)"
    by (simp add: final_call_def final_prompt_of_def)
  show "fst (try_block env fs c) =
     Append starting_event # document_trace fs ?outs @
       (case failure_of ?outs of
          Some e \<Rightarrow> []
        | None \<Rightarrow>
            [Append generating_event, Append (token_event ?fp),
             Call ?fp 5 (fst (final_call env fs c)) (fst (snd (final_call env fs c)))]
            @ final_steps (fst (snd (final_call env fs c))))"
    unfolding fc
    by (cases "failure_of ?outs"; cases r)
      (simp_all add: try_block_def Let_def summarize_files_exact [of env fs "[]" c]
        call_with_retry_def run update_status_def starting_event_def generating_event_def
        token_event_def token_message_def count_tokens_def final_prompt_of_def
        final_steps_def report_event_def)
  show "fst (snd (try_block env fs c)) =
     (case failure_of ?outs of
        Some e \<Rightarrow> Inl e
      | None \<Rightarrow> final_outcome (fst (snd (final_call env fs c))))"
    unfolding fc
    by (cases "failure_of ?outs"; cases r)
      (simp_all add: try_block_def Let_def summarize_files_exact [of env fs "[]" c]
        call_with_retry_def run final_outcome_def)
qed

lemma task_effects_closing:
  "fst (task_effects env fs c) =
     fst (try_block env fs c) @ closing (fst (snd (try_block env fs c)))"
proof -
  obtain t r c' where tb: "try_block env fs c = (t, r, c')"
    by (cases "try_block env fs c")
  show ?thesis
    by (cases r)
      (simp_all add: task_effects_def tb closing_def update_status_def error_event_def
        error_message_def)
qed

lemma task_effects_exact:
  "fst (task_effects env fs c) =
     Append starting_event # document_trace fs (summary_outcomes env fs c) @
       (case failure_of (summary_outcomes env fs c) of
          Some e \<Rightarrow> [Append (error_event e), SetComplete]
        | None \<Rightarrow>
            [Append generating_event,
             Append (token_event (final_prompt_of fs (returned (summary_outcomes env fs c)))),
             Call (final_prompt_of fs (returned (summary_outcomes env fs c))) 5
               (fst (final_call env fs c)) (fst (snd (final_call env fs c)))]
            @ final_steps (fst (snd (final_call env fs c)))
            @ closing (final_outcome (fst (snd (final_call env fs c)))))"
  unfolding task_effects_closing try_block_exact
  by (cases "failure_of (summary_outcomes env fs c)") (simp_all add: closing_def)

section \<open>What the renderer accepts\<close>










section \<open>A task that succeeds\<close>








section \<open>Worked examples\<close>

lemma example_final_job:
  "example_final =
   \<lparr>files = example_files,
    status_updates =
      [starting_event, mk_event ''status'' ''Summarizing file: a.txt...'', generating_event,
       token_event (final_prompt_of example_files [''ok'']), report_event],
    is_complete = True, report_content = Some ''ok''\<rparr>"
  unfolding example_final_def example_trace by (simp add: run_effects_def new_job_def)

lemma example_waiting_job:
  "example_waiting =
   \<lparr>files = example_files,
    status_updates =
      [starting_event, mk_event ''status'' ''Summarizing file: a.txt...'', generating_event,
       token_event (final_prompt_of example_files [''ok''])],
    is_complete = False, report_content = None\<rparr>"
  unfolding example_waiting_def example_trace by (simp add: run_effects_def new_job_def)










section \<open>Step order of the task\<close>

text \<open>
  Claim C3.  The trace of the task begins with the starting status event.  Then come the
  steps for the documents, in order, where the outcome of each summary call is the one
  of \<open>run_openai_with_retry\<close> with three attempts on the prompt that embeds the filename
  and the text of the document, run on the clock that the call before it left: the status
  event naming the file, the call, and the pause of 5.  When no summary call raised,
  there is one outcome for each document, and the trace goes on with the status event
  for the consolidated report, the status event with the token estimate of the final
  prompt (its length divided by 4), and the call with five attempts on that prompt, which
  holds the returned summaries, each tagged with its filename, in order.  When a summary
  call raised, the steps end with that call, and the task closes with the error event
  and the completion.
\<close>

theorem orchestrator_step_order:
  "prefix [Append starting_event] (fst (task_effects env fs c))
   \<and> (failure_of (summary_outcomes env fs c) = None \<longrightarrow>
        length (summary_outcomes env fs c) = length fs \<and>
        prefix
          (Append starting_event # document_trace fs (summary_outcomes env fs c) @
             [Append generating_event,
              Append (token_event (final_prompt_of fs (returned (summary_outcomes env fs c)))),
              Call (final_prompt_of fs (returned (summary_outcomes env fs c))) 5
                (fst (final_call env fs c)) (fst (snd (final_call env fs c)))])
          (fst (task_effects env fs c)))
   \<and> (\<forall>e. failure_of (summary_outcomes env fs c) = Some e \<longrightarrow>
        fst (task_effects env fs c) =
          Append starting_event # document_trace fs (summary_outcomes env fs c) @
            [Append (error_event e), SetComplete])"
proof -
  have first: "prefix [Append starting_event] (fst (task_effects env fs c))"
    unfolding task_effects_exact by simp
  have ok: "failure_of (summary_outcomes env fs c) = None \<longrightarrow>
        length (summary_outcomes env fs c) = length fs \<and>
        prefix
          (Append starting_event # document_trace fs (summary_outcomes env fs c) @
             [Append generating_event,
              Append (token_event (final_prompt_of fs (returned (summary_outcomes env fs c)))),
              Call (final_prompt_of fs (returned (summary_outcomes env fs c))) 5
                (fst (final_call env fs c)) (fst (snd (final_call env fs c)))])
          (fst (task_effects env fs c))"
  proof
    assume none: "failure_of (summary_outcomes env fs c) = None"
    have "prefix
          (Append starting_event # document_trace fs (summary_outcomes env fs c) @
             [Append generating_event,
              Append (token_event (final_prompt_of fs (returned (summary_outcomes env fs c)))),
              Call (final_prompt_of fs (returned (summary_outcomes env fs c))) 5
                (fst (final_call env fs c)) (fst (snd (final_call env fs c)))])
          (fst (task_effects env fs c))"
      unfolding task_effects_exact none by (simp add: prefix_def)
    with summary_outcomes_length(2) [OF none]
    show "length (summary_outcomes env fs c) = length fs \<and>
        prefix
          (Append starting_event # document_trace fs (summary_outcomes env fs c) @
             [Append generating_event,
              Append (token_event (final_prompt_of fs (returned (summary_outcomes env fs c)))),
              Call (final_prompt_of fs (returned (summary_outcomes env fs c))) 5
                (fst (final_call env fs c)) (fst (snd (final_call env fs c)))])
          (fst (task_effects env fs c))"
      by (rule conjI)
  qed
  have bad: "\<forall>e. failure_of (summary_outcomes env fs c) = Some e \<longrightarrow>
        fst (task_effects env fs c) =
          Append starting_event # document_trace fs (summary_outcomes env fs c) @
            [Append (error_event e), SetComplete]"
  proof (intro allI impI)
    fix e
    assume some: "failure_of (summary_outcomes env fs c) = Some e"
    show "fst (task_effects env fs c) =
          Append starting_event # document_trace fs (summary_outcomes env fs c) @
            [Append (error_event e), SetComplete]"
      unfolding task_effects_exact some by simp
  qed
  from first ok bad show ?thesis
    by (intro conjI)
qed

lemma example_outcomes:
  "summary_calls (flaky_env 1 ''ok'') example_files clock0 =
     ([([Request (summary_prompt ''a.txt'' ''Critical SQL injection in login''),
         Backoff (3 / 2),
         Request (summary_prompt ''a.txt'' ''Critical SQL injection in login'')],
        Inr ''ok'')],
      \<lparr>calls = 2, draws = 1\<rparr>)"
  by (simp add: run_openai_with_retry_def flaky_env_def example_files_def clock0_def
      wait_time_def upt_conv_Cons)

lemma example_failing_outcomes:
  "summary_calls (flaky_env 7 ''ok'') example_files clock0 =
     ([([Request (summary_prompt ''a.txt'' ''Critical SQL injection in login''),
         Backoff (3 / 2),
         Request (summary_prompt ''a.txt'' ''Critical SQL injection in login''),
         Backoff (5 / 2),
         Request (summary_prompt ''a.txt'' ''Critical SQL injection in login'')],
        Inl (Exception ''timeout''))],
      \<lparr>calls = 3, draws = 2\<rparr>)"
  by (simp add: run_openai_with_retry_def flaky_env_def example_files_def clock0_def
      wait_time_def upt_conv_Cons)

theorem orchestrator_step_order_witness:
  "prefix
     [Append starting_event,
      Append (mk_event ''status'' ''Summarizing file: a.txt...''),
      Call (''Summarize all critical vulnerabilities from the file '' @ [CHR 0x27] @ ''a.txt''
              @ [CHR 0x27] @ ''. TEXT: Critical SQL injection in login'') 3
        [Request (summary_prompt ''a.txt'' ''Critical SQL injection in login''),
         Backoff (3 / 2),
         Request (summary_prompt ''a.txt'' ''Critical SQL injection in login'')]
        (Inr ''ok''),
      Sleep 5,
      Append generating_event,
      Append (token_event (final_prompt_of example_files [''ok''])),
      Call (final_prompt_of example_files [''ok'']) 5
        [Request (final_prompt_of example_files [''ok''])] (Inr ''ok'')]
     (fst (task_effects (flaky_env 1 ''ok'') example_files clock0))
   \<and> fst (task_effects (flaky_env 7 ''ok'') example_files clock0) =
     [Append starting_event,
      Append (mk_event ''status'' ''Summarizing file: a.txt...''),
      Call (''Summarize all critical vulnerabilities from the file '' @ [CHR 0x27] @ ''a.txt''
              @ [CHR 0x27] @ ''. TEXT: Critical SQL injection in login'') 3
        [Request (summary_prompt ''a.txt'' ''Critical SQL injection in login''),
         Backoff (3 / 2),
         Request (summary_prompt ''a.txt'' ''Critical SQL injection in login''),
         Backoff (5 / 2),
         Request (summary_prompt ''a.txt'' ''Critical SQL injection in login'')]
        (Inl (Exception ''timeout'')),
      Append (error_event (Exception ''timeout'')),
      SetComplete]"
proof -
  let ?p = "summary_prompt ''a.txt'' ''Critical SQL injection in login''"
  have outs: "summary_outcomes (flaky_env 1 ''ok'') example_files clock0 =
      [([Request ?p, Backoff (3 / 2), Request ?p], Inr ''ok'')]"
    unfolding summary_outcomes_def example_outcomes by simp
  have fin: "final_call (flaky_env 1 ''ok'') example_files clock0 =
      ([Request (final_prompt_of example_files [''ok''])], Inr ''ok'', \<lparr>calls = 3, draws = 1\<rparr>)"
    unfolding final_call_def summary_outcomes_def clock_after_summaries_def example_outcomes
    by (simp add: run_openai_with_retry_def flaky_env_def upt_conv_Cons)
  have none: "failure_of (summary_outcomes (flaky_env 1 ''ok'') example_files clock0) = None"
    unfolding outs by simp
  have bad: "summary_outcomes (flaky_env 7 ''ok'') example_files clock0 =
      [([Request ?p, Backoff (3 / 2), Request ?p, Backoff (5 / 2), Request ?p],
        Inl (Exception ''timeout''))]"
    unfolding summary_outcomes_def example_failing_outcomes by simp
  have some: "failure_of (summary_outcomes (flaky_env 7 ''ok'') example_files clock0)
      = Some (Exception ''timeout'')"
    unfolding bad by simp
  note inst1 = orchestrator_step_order [of "flaky_env 1 ''ok''" example_files clock0]
  note inst2 = orchestrator_step_order [of "flaky_env 7 ''ok''" example_files clock0]
  have a: "prefix
     (Append starting_event #
        document_trace example_files (summary_outcomes (flaky_env 1 ''ok'') example_files clock0) @
        [Append generating_event,
         Append (token_event (final_prompt_of example_files
            (returned (summary_outcomes (flaky_env 1 ''ok'') example_files clock0)))),
         Call (final_prompt_of example_files
            (returned (summary_outcomes (flaky_env 1 ''ok'') example_files clock0))) 5
           (fst (final_call (flaky_env 1 ''ok'') example_files clock0))
           (fst (snd (final_call (flaky_env 1 ''ok'') example_files clock0)))])
     (fst (task_effects (flaky_env 1 ''ok'') example_files clock0))"
    using inst1 [THEN conjunct2, THEN conjunct1] none by blast
  have b: "fst (task_effects (flaky_env 7 ''ok'') example_files clock0) =
     Append starting_event #
       document_trace example_files (summary_outcomes (flaky_env 7 ''ok'') example_files clock0) @
       [Append (error_event (Exception ''timeout'')), SetComplete]"
    using inst2 [THEN conjunct2, THEN conjunct2] some by blast
  from a b show ?thesis
    unfolding outs bad fin
    by (simp add: example_files_def summary_prompt_def)
qed

section \<open>The retry wrapper: exhaustion\<close>

lemma calls_in_append: "calls_in (a @ b) = calls_in a @ calls_in b"
  by (induction a rule: calls_in.induct) simp_all

lemma calls_in_document_trace:
  "calls_in (document_trace fs outs) = summary_call_records fs outs"
  by (induction fs outs rule: document_trace.induct) (simp_all add: summary_prompt_def)

lemma calls_in_final_steps: "calls_in (final_steps r) = []"
  by (cases r) (simp_all add: final_steps_def)

lemma calls_in_closing: "calls_in (closing x) = []"
  by (cases x) (simp_all add: closing_def)

lemma calls_in_task: "calls_in (fst (task_effects env fs c)) = expected_calls env fs c"
  unfolding task_effects_exact expected_calls_def
  by (cases "failure_of (summary_outcomes env fs c)")
    (simp_all add: calls_in_append calls_in_document_trace calls_in_final_steps calls_in_closing)

lemma attempts_of_summary_calls:
  "map (\<lambda>call. fst (snd call)) (summary_call_records fs (fst (summary_calls env fs c))) =
     replicate (length (fst (summary_calls env fs c))) 3"
proof (induction fs arbitrary: c)
  case Nil
  show ?case by simp
next
  case (Cons doc fs)
  obtain inner r c1 where
    run: "run_openai_with_retry env (summary_prompt (fst doc) (snd doc)) 3 c = (inner, r, c1)"
    by (cases "run_openai_with_retry env (summary_prompt (fst doc) (snd doc)) 3 c")
  show ?case
  proof (cases r)
    case (Inl e)
    with run show ?thesis by simp
  next
    case (Inr summary)
    obtain outs c2 where rest: "summary_calls env fs c1 = (outs, c2)"
      by (cases "summary_calls env fs c1")
    with Cons.IH [of c1] run Inr show ?thesis
      by simp
  qed
qed

lemma attempts_of_task:
  "map (\<lambda>call. fst (snd call)) (calls_in (fst (task_effects env fs c))) =
     replicate (length (summary_outcomes env fs c)) 3 @
       (case failure_of (summary_outcomes env fs c) of None \<Rightarrow> [5] | Some e \<Rightarrow> [])"
  unfolding calls_in_task expected_calls_def
  using attempts_of_summary_calls [of fs env c]
  by (cases "failure_of (summary_outcomes env fs c)") (simp_all add: summary_outcomes_def)

text \<open>
  Claim C5.  For every prompt and every \<open>max_attempts = N \<ge> 1\<close>: when every request of a
  call raises, the wrapper makes exactly \<open>N\<close> requests, with a back-off after each but
  the last, and then raises the exception of the last request; the request counter
  stands at \<open>N\<close> more than before.  The wrapper calls of the task are exactly these: for
  each document in order, as far as the summary calls go, \<open>run_openai_with_retry\<close> with
  three attempts on its summary prompt; then, when none of them raised,
  \<open>run_openai_with_retry\<close> with five attempts on the final prompt.  When it is the summary
  call of the first document whose three requests all raise, the task ends with that call,
  the error event and the completion; when it is the final call whose five requests all
  raise, the task ends likewise after that call.
\<close>

theorem retry_exhaustion:
  assumes "1 \<le> N"
    and "\<forall>i<nat N. \<exists>e. completion env (calls c + i) prompt = Raises e"
  shows "(\<exists>e. completion env (calls c + (nat N - 1)) prompt = Raises e \<and>
          run_openai_with_retry env prompt N c =
            (failed_attempts env prompt 0 (draws c) (nat N - 1) @ [Request prompt],
             Inl (Exception e),
             \<lparr>calls = calls c + nat N, draws = draws c + (nat N - 1)\<rparr>) \<and>
          (N = 3 \<and> c = c0 \<and> fs \<noteq> [] \<and> prompt = summary_prompt (fst (hd fs)) (snd (hd fs)) \<longrightarrow>
             fst (task_effects env fs c0) =
               [Append starting_event,
                Append (mk_event ''status'' (''Summarizing file: '' @ fst (hd fs) @ ''...'')),
                Call prompt 3 (failed_attempts env prompt 0 (draws c) 2 @ [Request prompt])
                  (Inl (Exception e)),
                Append (error_event (Exception e)),
                SetComplete]) \<and>
          (N = 5 \<and> failure_of (summary_outcomes env fs c0) = None \<and>
           c = clock_after_summaries env fs c0 \<and>
           prompt = final_prompt_of fs (returned (summary_outcomes env fs c0)) \<longrightarrow>
             fst (task_effects env fs c0) =
               Append starting_event # document_trace fs (summary_outcomes env fs c0) @
                 [Append generating_event,
                  Append (token_event prompt),
                  Call prompt 5 (failed_attempts env prompt 0 (draws c) 4 @ [Request prompt])
                    (Inl (Exception e)),
                  Append (error_event (Exception e)),
                  SetComplete]))
    \<and> requests (fst (run_openai_with_retry env prompt N c)) = replicate (nat N) prompt
    \<and> calls_in (fst (task_effects env fs c0)) = expected_calls env fs c0
    \<and> map (\<lambda>call. fst (snd call)) (calls_in (fst (task_effects env fs c0))) =
        replicate (length (summary_outcomes env fs c0)) 3 @
          (case failure_of (summary_outcomes env fs c0) of None \<Rightarrow> [5] | Some e \<Rightarrow> [])"
proof -
  obtain k where k: "nat N = Suc k"
    using assms(1) by (cases "nat N") simp_all
  from assms(2) k obtain e where last: "completion env (calls c + k) prompt = Raises e"
    by (metis lessI)
  from assms(2) k have before: "\<forall>i<k. \<exists>e. completion env (calls c + i) prompt = Raises e"
    by simp
  have n: "int (nat N) = N"
    using assms(1) by simp
  have "retry_loop env prompt (int (nat N)) [0..<nat N] c =
    (failed_attempts env prompt 0 (draws c) k @ [Request prompt],
     Inl (Exception e),
     \<lparr>calls = calls c + k + 1, draws = draws c + k\<rparr>)"
    by (rule retry_loop_exhausted [OF _ before last]) (simp add: k)
  then have run: "run_openai_with_retry env prompt N c =
    (failed_attempts env prompt 0 (draws c) (nat N - 1) @ [Request prompt],
     Inl (Exception e),
     \<lparr>calls = calls c + nat N, draws = draws c + (nat N - 1)\<rparr>)"
    unfolding run_openai_with_retry_def n by (simp add: k)
  have reqs: "requests (fst (run_openai_with_retry env prompt N c)) = replicate (nat N) prompt"
    unfolding run by (simp add: requests_failed_attempts k replicate_append_same)
  have at: "completion env (calls c + (nat N - 1)) prompt = Raises e"
    using last k by simp
  have first: "N = 3 \<and> c = c0 \<and> fs \<noteq> [] \<and> prompt = summary_prompt (fst (hd fs)) (snd (hd fs)) \<longrightarrow>
             fst (task_effects env fs c0) =
               [Append starting_event,
                Append (mk_event ''status'' (''Summarizing file: '' @ fst (hd fs) @ ''...'')),
                Call prompt 3 (failed_attempts env prompt 0 (draws c) 2 @ [Request prompt])
                  (Inl (Exception e)),
                Append (error_event (Exception e)),
                SetComplete]"
  proof
    assume a: "N = 3 \<and> c = c0 \<and> fs \<noteq> [] \<and> prompt = summary_prompt (fst (hd fs)) (snd (hd fs))"
    then obtain doc docs where fs: "fs = doc # docs"
      by (cases fs) auto
    from a fs have p: "prompt = summary_prompt (fst doc) (snd doc)"
      by simp
    from run a have run3: "run_openai_with_retry env (summary_prompt (fst doc) (snd doc)) 3 c0 =
        (failed_attempts env prompt 0 (draws c) 2 @ [Request prompt], Inl (Exception e),
         \<lparr>calls = calls c + 3, draws = draws c + 2\<rparr>)"
      unfolding p by simp
    have outs: "summary_outcomes env fs c0 =
        [(failed_attempts env prompt 0 (draws c) 2 @ [Request prompt], Inl (Exception e))]"
      unfolding summary_outcomes_def fs by (simp add: run3)
    show "fst (task_effects env fs c0) =
               [Append starting_event,
                Append (mk_event ''status'' (''Summarizing file: '' @ fst (hd fs) @ ''...'')),
                Call prompt 3 (failed_attempts env prompt 0 (draws c) 2 @ [Request prompt])
                  (Inl (Exception e)),
                Append (error_event (Exception e)),
                SetComplete]"
      unfolding task_effects_exact outs
      by (simp add: fs p summary_prompt_def)
  qed
  have final: "N = 5 \<and> failure_of (summary_outcomes env fs c0) = None \<and>
           c = clock_after_summaries env fs c0 \<and>
           prompt = final_prompt_of fs (returned (summary_outcomes env fs c0)) \<longrightarrow>
             fst (task_effects env fs c0) =
               Append starting_event # document_trace fs (summary_outcomes env fs c0) @
                 [Append generating_event,
                  Append (token_event prompt),
                  Call prompt 5 (failed_attempts env prompt 0 (draws c) 4 @ [Request prompt])
                    (Inl (Exception e)),
                  Append (error_event (Exception e)),
                  SetComplete]"
  proof
    assume a: "N = 5 \<and> failure_of (summary_outcomes env fs c0) = None \<and>
           c = clock_after_summaries env fs c0 \<and>
           prompt = final_prompt_of fs (returned (summary_outcomes env fs c0))"
    then have none: "failure_of (summary_outcomes env fs c0) = None"
      and p: "final_prompt_of fs (returned (summary_outcomes env fs c0)) = prompt"
      and c: "clock_after_summaries env fs c0 = c"
      by simp_all
    from run a have fc: "final_call env fs c0 =
        (failed_attempts env prompt 0 (draws c) 4 @ [Request prompt], Inl (Exception e),
         \<lparr>calls = calls c + 5, draws = draws c + 4\<rparr>)"
      unfolding final_call_def p c by simp
    show "fst (task_effects env fs c0) =
               Append starting_event # document_trace fs (summary_outcomes env fs c0) @
                 [Append generating_event,
                  Append (token_event prompt),
                  Call prompt 5 (failed_attempts env prompt 0 (draws c) 4 @ [Request prompt])
                    (Inl (Exception e)),
                  Append (error_event (Exception e)),
                  SetComplete]"
      unfolding task_effects_exact none fc p
      by (simp add: final_steps_def final_outcome_def closing_def)
  qed
  from at run first final have
    "\<exists>e. completion env (calls c + (nat N - 1)) prompt = Raises e \<and>
          run_openai_with_retry env prompt N c =
            (failed_attempts env prompt 0 (draws c) (nat N - 1) @ [Request prompt],
             Inl (Exception e),
             \<lparr>calls = calls c + nat N, draws = draws c + (nat N - 1)\<rparr>) \<and>
          (N = 3 \<and> c = c0 \<and> fs \<noteq> [] \<and> prompt = summary_prompt (fst (hd fs)) (snd (hd fs)) \<longrightarrow>
             fst (task_effects env fs c0) =
               [Append starting_event,
                Append (mk_event ''status'' (''Summarizing file: '' @ fst (hd fs) @ ''...'')),
                Call prompt 3 (failed_attempts env prompt 0 (draws c) 2 @ [Request prompt])
                  (Inl (Exception e)),
                Append (error_event (Exception e)),
                SetComplete]) \<and>
          (N = 5 \<and> failure_of (summary_outcomes env fs c0) = None \<and>
           c = clock_after_summaries env fs c0 \<and>
           prompt = final_prompt_of fs (returned (summary_outcomes env fs c0)) \<longrightarrow>
             fst (task_effects env fs c0) =
               Append starting_event # document_trace fs (summary_outcomes env fs c0) @
                 [Append generating_event,
                  Append (token_event prompt),
                  Call prompt 5 (failed_attempts env prompt 0 (draws c) 4 @ [Request prompt])
                    (Inl (Exception e)),
                  Append (error_event (Exception e)),
                  SetComplete])"
    by (intro exI conjI)
  with reqs calls_in_task [of env fs c0] attempts_of_task [of env fs c0] show ?thesis
    by (intro conjI)
qed


lemma example_final_fails_outcomes:
  "summary_calls final_fails_env example_files clock0 =
     ([([Request (summary_prompt ''a.txt'' ''Critical SQL injection in login'')],
        Inr ''summary'')],
      \<lparr>calls = 1, draws = 0\<rparr>)"
  by (simp add: run_openai_with_retry_def final_fails_env_def example_files_def clock0_def
      upt_conv_Cons)

theorem retry_exhaustion_witness:
  "run_openai_with_retry (flaky_env 7 ''ok'')
       (summary_prompt ''a.txt'' ''Critical SQL injection in login'') 3 clock0 =
     ([Request (summary_prompt ''a.txt'' ''Critical SQL injection in login''),
       Backoff (3 / 2),
       Request (summary_prompt ''a.txt'' ''Critical SQL injection in login''),
       Backoff (5 / 2),
       Request (summary_prompt ''a.txt'' ''Critical SQL injection in login'')],
      Inl (Exception ''timeout''), \<lparr>calls = 3, draws = 2\<rparr>)
   \<and> fst (task_effects (flaky_env 7 ''ok'') example_files clock0) =
     [Append starting_event,
      Append (mk_event ''status'' ''Summarizing file: a.txt...''),
      Call (summary_prompt ''a.txt'' ''Critical SQL injection in login'') 3
        [Request (summary_prompt ''a.txt'' ''Critical SQL injection in login''),
         Backoff (3 / 2),
         Request (summary_prompt ''a.txt'' ''Critical SQL injection in login''),
         Backoff (5 / 2),
         Request (summary_prompt ''a.txt'' ''Critical SQL injection in login'')]
        (Inl (Exception ''timeout'')),
      Append (error_event (Exception ''timeout'')),
      SetComplete]
   \<and> map (\<lambda>call. fst (snd call))
        (calls_in (fst (task_effects (flaky_env 7 ''ok'') example_files clock0))) = [3]
   \<and> fst (task_effects final_fails_env example_files clock0) =
     [Append starting_event,
      Append (mk_event ''status'' ''Summarizing file: a.txt...''),
      Call (summary_prompt ''a.txt'' ''Critical SQL injection in login'') 3
        [Request (summary_prompt ''a.txt'' ''Critical SQL injection in login'')]
        (Inr ''summary''),
      Sleep 5,
      Append generating_event,
      Append (token_event (final_prompt_of example_files [''summary''])),
      Call (final_prompt_of example_files [''summary'']) 5
        [Request (final_prompt_of example_files [''summary'']), Backoff (3 / 2),
         Request (final_prompt_of example_files [''summary'']), Backoff (5 / 2),
         Request (final_prompt_of example_files [''summary'']), Backoff (9 / 2),
         Request (final_prompt_of example_files [''summary'']), Backoff (17 / 2),
         Request (final_prompt_of example_files [''summary''])]
        (Inl (Exception ''timeout'')),
      Append (error_event (Exception ''timeout'')),
      SetComplete]
   \<and> map (\<lambda>call. fst (snd call))
        (calls_in (fst (task_effects final_fails_env example_files clock0))) = [3, 5]"
proof -
  let ?p = "summary_prompt ''a.txt'' ''Critical SQL injection in login''"
  let ?fp = "final_prompt_of example_files [''summary'']"
  let ?c1 = "\<lparr>calls = 1, draws = 0\<rparr>"
  have two: "[0..<2] = [0, Suc 0]" and four: "[0..<4] = [0, Suc 0, 2, 3]"
    by (simp_all add: upt_conv_Cons)
  have h1: "(1::int) \<le> 3" and h1': "(1::int) \<le> 5"
    by simp_all
  have h2: "\<forall>i<nat 3. \<exists>e. completion (flaky_env 7 ''ok'') (calls clock0 + i) ?p = Raises e"
    by (simp add: flaky_env_def clock0_def)
  have h2': "\<forall>i<nat 5. \<exists>e. completion final_fails_env (calls ?c1 + i) ?fp = Raises e"
    by (simp add: final_fails_env_def)
  have outs7: "summary_outcomes (flaky_env 7 ''ok'') example_files clock0 =
      [([Request ?p, Backoff (3 / 2), Request ?p, Backoff (5 / 2), Request ?p],
        Inl (Exception ''timeout''))]"
    unfolding summary_outcomes_def example_failing_outcomes by simp
  have outsf: "summary_outcomes final_fails_env example_files clock0 = [([Request ?p], Inr ''summary'')]"
    and clockf: "clock_after_summaries final_fails_env example_files clock0 = ?c1"
    unfolding summary_outcomes_def clock_after_summaries_def example_final_fails_outcomes
    by simp_all
  have hd_files: "example_files \<noteq> []"
    and hd_prompt: "?p = summary_prompt (fst (hd example_files)) (snd (hd example_files))"
    by (simp_all add: example_files_def)
  note inst1 = retry_exhaustion [OF h1 h2, of clock0 example_files]
  note inst2 = retry_exhaustion [OF h1' h2', of clock0 example_files]
  from inst1 [THEN conjunct1] obtain e where
    e: "completion (flaky_env 7 ''ok'') (calls clock0 + (nat 3 - 1)) ?p = Raises e" and
    run: "run_openai_with_retry (flaky_env 7 ''ok'') ?p 3 clock0 =
            (failed_attempts (flaky_env 7 ''ok'') ?p 0 (draws clock0) (nat 3 - 1) @ [Request ?p],
             Inl (Exception e),
             \<lparr>calls = calls clock0 + nat 3, draws = draws clock0 + (nat 3 - 1)\<rparr>)" and
    first: "(3::int) = 3 \<and> clock0 = clock0 \<and> example_files \<noteq> [] \<and>
         ?p = summary_prompt (fst (hd example_files)) (snd (hd example_files)) \<longrightarrow>
             fst (task_effects (flaky_env 7 ''ok'') example_files clock0) =
               [Append starting_event,
                Append (mk_event ''status'' (''Summarizing file: '' @ fst (hd example_files) @ ''...'')),
                Call ?p 3 (failed_attempts (flaky_env 7 ''ok'') ?p 0 (draws clock0) 2 @ [Request ?p])
                  (Inl (Exception e)),
                Append (error_event (Exception e)),
                SetComplete]"
    by blast
  from e have e_is: "e = ''timeout''"
    by (simp add: flaky_env_def clock0_def)
  have a: "run_openai_with_retry (flaky_env 7 ''ok'') ?p 3 clock0 =
     ([Request ?p, Backoff (3 / 2), Request ?p, Backoff (5 / 2), Request ?p],
      Inl (Exception ''timeout''), \<lparr>calls = 3, draws = 2\<rparr>)"
    unfolding run e_is
    by (simp add: failed_attempts_def wait_time_def flaky_env_def clock0_def two numeral_2_eq_2)
  from first hd_files hd_prompt have
    "fst (task_effects (flaky_env 7 ''ok'') example_files clock0) =
               [Append starting_event,
                Append (mk_event ''status'' (''Summarizing file: '' @ fst (hd example_files) @ ''...'')),
                Call ?p 3 (failed_attempts (flaky_env 7 ''ok'') ?p 0 (draws clock0) 2 @ [Request ?p])
                  (Inl (Exception e)),
                Append (error_event (Exception e)),
                SetComplete]"
    by blast
  then have b: "fst (task_effects (flaky_env 7 ''ok'') example_files clock0) =
     [Append starting_event,
      Append (mk_event ''status'' ''Summarizing file: a.txt...''),
      Call ?p 3 [Request ?p, Backoff (3 / 2), Request ?p, Backoff (5 / 2), Request ?p]
        (Inl (Exception ''timeout'')),
      Append (error_event (Exception ''timeout'')),
      SetComplete]"
    unfolding e_is
    by (simp add: failed_attempts_def wait_time_def flaky_env_def clock0_def two numeral_2_eq_2
        example_files_def)
  have c: "map (\<lambda>call. fst (snd call))
        (calls_in (fst (task_effects (flaky_env 7 ''ok'') example_files clock0))) = [3]"
    unfolding inst1 [THEN conjunct2, THEN conjunct2, THEN conjunct2] outs7 by simp
  have nonef: "failure_of (summary_outcomes final_fails_env example_files clock0) = None"
    unfolding outsf by simp
  have promptf: "?fp = final_prompt_of example_files
      (returned (summary_outcomes final_fails_env example_files clock0))"
    unfolding outsf by simp
  from inst2 [THEN conjunct1] obtain e' where
    e': "completion final_fails_env (calls ?c1 + (nat 5 - 1)) ?fp = Raises e'" and
    final: "(5::int) = 5 \<and> failure_of (summary_outcomes final_fails_env example_files clock0) = None \<and>
           ?c1 = clock_after_summaries final_fails_env example_files clock0 \<and>
           ?fp = final_prompt_of example_files
              (returned (summary_outcomes final_fails_env example_files clock0)) \<longrightarrow>
             fst (task_effects final_fails_env example_files clock0) =
               Append starting_event #
                 document_trace example_files (summary_outcomes final_fails_env example_files clock0) @
                 [Append generating_event,
                  Append (token_event ?fp),
                  Call ?fp 5 (failed_attempts final_fails_env ?fp 0 (draws ?c1) 4 @ [Request ?fp])
                    (Inl (Exception e')),
                  Append (error_event (Exception e')),
                  SetComplete]"
    by blast
  from e' have e'_is: "e' = ''timeout''"
    by (simp add: final_fails_env_def)
  from final nonef clockf promptf have
    "fst (task_effects final_fails_env example_files clock0) =
               Append starting_event #
                 document_trace example_files (summary_outcomes final_fails_env example_files clock0) @
                 [Append generating_event,
                  Append (token_event ?fp),
                  Call ?fp 5 (failed_attempts final_fails_env ?fp 0 (draws ?c1) 4 @ [Request ?fp])
                    (Inl (Exception e')),
                  Append (error_event (Exception e')),
                  SetComplete]"
    by simp
  then have d: "fst (task_effects final_fails_env example_files clock0) =
     [Append starting_event,
      Append (mk_event ''status'' ''Summarizing file: a.txt...''),
      Call ?p 3 [Request ?p] (Inr ''summary''),
      Sleep 5,
      Append generating_event,
      Append (token_event ?fp),
      Call ?fp 5
        [Request ?fp, Backoff (3 / 2), Request ?fp, Backoff (5 / 2),
         Request ?fp, Backoff (9 / 2), Request ?fp, Backoff (17 / 2), Request ?fp]
        (Inl (Exception ''timeout'')),
      Append (error_event (Exception ''timeout'')),
      SetComplete]"
    unfolding e'_is outsf
    by (simp add: failed_attempts_def wait_time_def final_fails_env_def four
        example_files_def summary_prompt_def)
  have f: "map (\<lambda>call. fst (snd call))
        (calls_in (fst (task_effects final_fails_env example_files clock0))) = [3, 5]"
    unfolding inst2 [THEN conjunct2, THEN conjunct2, THEN conjunct2] outsf by simp
  from a b c d f show ?thesis
    by (intro conjI)
qed

section \<open>The report event\<close>




section \<open>The completion flag\<close>

lemma quiet_no_complete: "list_all quiet es \<Longrightarrow> SetComplete \<notin> set es"
  by (induction es) auto

lemma flag_kept:
  "SetComplete \<notin> set es \<Longrightarrow>
   map is_complete (job_states j es) = replicate (Suc (length es)) (is_complete j)"
proof (induction es arbitrary: j)
  case Nil
  show ?case by simp
next
  case (Cons e es)
  then have "e \<noteq> SetComplete" and "SetComplete \<notin> set es"
    by auto
  moreover from \<open>e \<noteq> SetComplete\<close> have "is_complete (apply_effect j e) = is_complete j"
    by (cases e) simp_all
  ultimately show ?case
    using Cons.IH [of "apply_effect j e"] by simp
qed

lemma flag_set_at_end:
  assumes "SetComplete \<notin> set es" and "\<not> is_complete j"
  shows "map is_complete (job_states j (es @ [SetComplete])) =
     replicate (length (es @ [SetComplete])) False @ [True]"
proof -
  have "job_states j (es @ [SetComplete]) =
      job_states j es @ [apply_effect (run_effects j es) SetComplete]"
    by (simp add: job_states_append)
  then show ?thesis
    using flag_kept [OF assms(1), of j] assms(2)
    by (simp add: replicate_append_same)
qed

lemma task_effects_ends:
  "\<exists>body. SetComplete \<notin> set body \<and> fst (task_effects env fs c) = body @ [SetComplete]"
proof -
  from task_effects_cases [of env fs c] show ?thesis
  proof
    assume "\<exists>pre fp inner r.
      list_all quiet pre \<and> r \<noteq> '''' \<and>
      (\<forall>p n i x. Call p n i x \<in> set pre \<longrightarrow> n = 3) \<and>
      fst (task_effects env fs c) =
        pre @ [Call fp 5 inner (Inr r), SetReport r, Append report_event, SetComplete] \<and>
      fst (snd (try_block env fs c)) = Inr ()"
    then obtain pre fp inner r where q: "list_all quiet pre" and
      t: "fst (task_effects env fs c) =
        pre @ [Call fp 5 inner (Inr r), SetReport r, Append report_event, SetComplete]"
      by blast
    let ?body = "pre @ [Call fp 5 inner (Inr r), SetReport r, Append report_event]"
    have "SetComplete \<notin> set ?body"
      using quiet_no_complete [OF q] by simp
    moreover have "fst (task_effects env fs c) = ?body @ [SetComplete]"
      using t by simp
    ultimately show ?thesis by blast
  next
    assume "\<exists>pre e.
      list_all quiet pre \<and>
      fst (task_effects env fs c) = pre @ [Append (error_event e), SetComplete] \<and>
      fst (snd (try_block env fs c)) = Inl e \<and>
      ((\<exists>p i. Call p 5 i (Inr '''') \<in> set pre) \<longrightarrow> e = ValueError empty_response_message)"
    then obtain pre e where q: "list_all quiet pre" and
      t: "fst (task_effects env fs c) = pre @ [Append (error_event e), SetComplete]"
      by blast
    let ?body = "pre @ [Append (error_event e)]"
    have "SetComplete \<notin> set ?body"
      using quiet_no_complete [OF q] by simp
    moreover have "fst (task_effects env fs c) = ?body @ [SetComplete]"
      using t by simp
    ultimately show ?thesis by blast
  qed
qed

lemma apply_effect_keeps_flag: "is_complete j \<Longrightarrow> is_complete (apply_effect j e)"
  by (cases e) simp_all

lemma upload_result:
  "upload_files_for_processing pdf_text decode uuid4 jobs f1 f2 f3 f4 = Inr (job_id, jobs', tasks) \<Longrightarrow>
   job_id = uuid4 \<and> tasks = [uuid4] \<and>
   jobs' = jobs(uuid4 \<mapsto> new_job (map (\<lambda>(name, f). (name, get_text_from_file pdf_text decode f))
              (named_files [f1, f2, f3, f4])))"
  by (auto simp: upload_files_for_processing_def Let_def split: if_splits)

text \<open>
  Claim C2.  A job is created with the completion flag false.  Along every run of the
  task, whatever the outside world does, the flag is false in every state but the last
  and true in the last one: the last effect of the task sets it, after success and after
  failure alike.  No effect of a task turns a true flag false, a task leaves every
  complete job of the store complete, and so does an upload whose identifier is fresh.
\<close>

theorem completion_flag_once:
  "(upload_files_for_processing pdf_text decode uuid4 jobs f1 f2 f3 f4 = Inr (job_id, jobs', tasks)
      \<longrightarrow> \<not> is_completed jobs' job_id
        \<and> (uuid4 \<notin> dom jobs \<longrightarrow> (\<forall>k. is_completed jobs k \<longrightarrow> is_completed jobs' k)))
   \<and> (\<not> is_complete j \<longrightarrow>
        map is_complete (job_states j (fst (task_effects env fs c))) =
          replicate (length (fst (task_effects env fs c))) False @ [True])
   \<and> last (fst (task_effects env fs c)) = SetComplete
   \<and> (is_complete j1 \<longrightarrow> is_complete (apply_effect j1 e))
   \<and> (jobs0 job_id0 = Some j0 \<longrightarrow>
        (\<exists>jobs1 c1. process_report_task env job_id0 jobs0 c = Inr (jobs1, c1)
           \<and> is_completed jobs1 job_id0
           \<and> (\<forall>k. is_completed jobs0 k \<longrightarrow> is_completed jobs1 k)))"
proof -
  from task_effects_ends [of env fs c] obtain body where
    body: "SetComplete \<notin> set body" and t: "fst (task_effects env fs c) = body @ [SetComplete]"
    by blast
  have up: "upload_files_for_processing pdf_text decode uuid4 jobs f1 f2 f3 f4 = Inr (job_id, jobs', tasks)
      \<longrightarrow> \<not> is_completed jobs' job_id
        \<and> (uuid4 \<notin> dom jobs \<longrightarrow> (\<forall>k. is_completed jobs k \<longrightarrow> is_completed jobs' k))"
  proof
    assume "upload_files_for_processing pdf_text decode uuid4 jobs f1 f2 f3 f4 = Inr (job_id, jobs', tasks)"
    from upload_result [OF this] show "\<not> is_completed jobs' job_id
        \<and> (uuid4 \<notin> dom jobs \<longrightarrow> (\<forall>k. is_completed jobs k \<longrightarrow> is_completed jobs' k))"
      by (auto simp: is_completed_def new_job_def split: option.splits)
  qed
  have flags: "\<not> is_complete j \<longrightarrow>
        map is_complete (job_states j (fst (task_effects env fs c))) =
          replicate (length (fst (task_effects env fs c))) False @ [True]"
    unfolding t using flag_set_at_end [OF body] by blast
  have last: "last (fst (task_effects env fs c)) = SetComplete"
    unfolding t by simp
  have keep: "is_complete j1 \<longrightarrow> is_complete (apply_effect j1 e)"
    by (simp add: apply_effect_keeps_flag)
  have task: "jobs0 job_id0 = Some j0 \<longrightarrow>
        (\<exists>jobs1 c1. process_report_task env job_id0 jobs0 c = Inr (jobs1, c1)
           \<and> is_completed jobs1 job_id0
           \<and> (\<forall>k. is_completed jobs0 k \<longrightarrow> is_completed jobs1 k))"
  proof
    assume known: "jobs0 job_id0 = Some j0"
    let ?t = "fst (task_effects env (files j0) c)"
    let ?jobs1 = "jobs0(job_id0 \<mapsto> run_effects j0 ?t)"
    from task_effects_ends [of env "files j0" c] obtain body0 where
      t0: "?t = body0 @ [SetComplete]"
      by blast
    have fin: "is_complete (run_effects j0 ?t)"
      unfolding t0 run_effects_append by (simp add: run_effects_def)
    have "process_report_task env job_id0 jobs0 c = Inr (?jobs1, snd (task_effects env (files j0) c))"
      using known by (simp add: process_report_task_known)
    moreover have "is_completed ?jobs1 job_id0"
      using fin by (simp add: is_completed_def)
    moreover have "\<forall>k. is_completed jobs0 k \<longrightarrow> is_completed ?jobs1 k"
      using fin by (simp add: is_completed_def)
    ultimately show "\<exists>jobs1 c1. process_report_task env job_id0 jobs0 c = Inr (jobs1, c1)
           \<and> is_completed jobs1 job_id0
           \<and> (\<forall>k. is_completed jobs0 k \<longrightarrow> is_completed jobs1 k)"
      by blast
  qed
  from up flags last keep task show ?thesis
    by blast
qed

theorem completion_flag_once_witness:
  "\<not> is_completed uploaded_store ''job-0002-efgh''
   \<and> is_completed uploaded_store ''job-0001-abcd''
   \<and> map is_complete
        (job_states (new_job example_files)
           (fst (task_effects (flaky_env 1 ''ok'') example_files clock0))) =
       replicate 10 False @ [True]
   \<and> last (fst (task_effects (flaky_env 1 ''ok'') example_files clock0)) = SetComplete
   \<and> is_complete (apply_effect ((new_job example_files)\<lparr>is_complete := True\<rparr>) (SetReport ''x''))
   \<and> (\<exists>jobs1 c1.
        process_report_task (flaky_env 1 ''ok'') ''job-0002-efgh'' uploaded_store clock0
          = Inr (jobs1, c1)
        \<and> is_completed jobs1 ''job-0002-efgh''
        \<and> is_completed jobs1 ''job-0001-abcd'')"
proof -
  have up: "upload_files_for_processing (\<lambda>b. None) (\<lambda>b. ''text'') ''job-0002-efgh''
      completed_store (Some example_upload) None None None =
      Inr (''job-0002-efgh'', uploaded_store, [''job-0002-efgh''])"
    by (simp add: upload_files_for_processing_def Let_def example_upload_def
        uploaded_store_def get_text_from_file_def lower_def lower_char_def suffix_to_prefix)
  have fresh: "''job-0002-efgh'' \<notin> dom completed_store"
    by (simp add: completed_store_def)
  have before: "is_completed completed_store ''job-0001-abcd''"
    by (simp add: completed_store_def is_completed_def)
  have nc: "\<not> is_complete (new_job example_files)"
    by (rule new_job_fields)
  have c: "is_complete ((new_job example_files)\<lparr>is_complete := True\<rparr>)"
    by simp
  have known: "uploaded_store ''job-0002-efgh'' = Some (new_job [(''b.txt'', ''text'')])"
    by (simp add: uploaded_store_def)
  have earlier: "is_completed uploaded_store ''job-0001-abcd''"
    by (simp add: uploaded_store_def completed_store_def is_completed_def)
  have len: "length (fst (task_effects (flaky_env 1 ''ok'') example_files clock0)) = 10"
    unfolding example_trace by simp
  note inst = completion_flag_once [of "\<lambda>b. None" "\<lambda>b. ''text''" "''job-0002-efgh''"
      completed_store "Some example_upload" None None None "''job-0002-efgh''" uploaded_store
      "[''job-0002-efgh'']" "new_job example_files" "flaky_env 1 ''ok''" example_files clock0
      "(new_job example_files)\<lparr>is_complete := True\<rparr>" "SetReport ''x''"
      uploaded_store "''job-0002-efgh''" "new_job [(''b.txt'', ''text'')]"]
  from inst up fresh before have a: "\<not> is_completed uploaded_store ''job-0002-efgh''"
    and b: "is_completed uploaded_store ''job-0001-abcd''"
    by blast+
  from inst nc len have flags: "map is_complete
        (job_states (new_job example_files)
           (fst (task_effects (flaky_env 1 ''ok'') example_files clock0))) =
       replicate 10 False @ [True]"
    by simp
  from inst have l: "last (fst (task_effects (flaky_env 1 ''ok'') example_files clock0)) = SetComplete"
    by blast
  from inst c have k: "is_complete (apply_effect ((new_job example_files)\<lparr>is_complete := True\<rparr>) (SetReport ''x''))"
    by blast
  from inst known earlier have t: "\<exists>jobs1 c1.
        process_report_task (flaky_env 1 ''ok'') ''job-0002-efgh'' uploaded_store clock0
          = Inr (jobs1, c1)
        \<and> is_completed jobs1 ''job-0002-efgh''
        \<and> is_completed jobs1 ''job-0001-abcd''"
    by blast
  from a b flags l k t show ?thesis
    by blast
qed

section \<open>The empty final response\<close>

text \<open>
  Claim C6.  When the final call, the one with five attempts, returns the empty string,
  the \<^verbatim>\<open>try\<close> block ends with the \<^verbatim>\<open>ValueError\<close> of the empty response, the last
  event of the job is the error event with that message, the report content is unset in
  every state of the run and at its end, the job is complete, and the download endpoint
  answers 404 for the store the task leaves and for every store that holds the job
  unchanged.
\<close>

theorem empty_final_response:
  assumes "jobs job_id = Some j"
    and "report_content j = None"
    and "Call p 5 inner (Inr '''') \<in> set (fst (task_effects env (files j) c))"
  shows "\<exists>jobs' c' j'.
      process_report_task env job_id jobs c = Inr (jobs', c') \<and>
      jobs' job_id = Some j' \<and>
      fst (snd (try_block env (files j) c)) = Inl (ValueError empty_response_message) \<and>
      last (status_updates j') =
        mk_event ''error''
          (''An error occurred during report processing: '' @
           ''The AI returned an empty response. This can be caused by content filters.'') \<and>
      report_content j' = None \<and>
      is_complete j' \<and>
      list_all (\<lambda>s. report_content s = None)
        (job_states j (fst (task_effects env (files j) c))) \<and>
      download_report save jobs' job_id =
        Inl (HTTPException 404 ''Report not found or not yet complete.'') \<and>
      (\<forall>later. later job_id = Some j' \<longrightarrow>
         download_report save later job_id =
           Inl (HTTPException 404 ''Report not found or not yet complete.''))"
proof -
  let ?t = "fst (task_effects env (files j) c)"
  let ?e = "ValueError empty_response_message"
  let ?j' = "run_effects j ?t"
  let ?jobs' = "jobs(job_id \<mapsto> ?j')"
  have "\<exists>pre. list_all quiet pre \<and> ?t = pre @ [Append (error_event ?e), SetComplete]
      \<and> fst (snd (try_block env (files j) c)) = Inl ?e"
    using task_effects_cases [of env "files j" c]
  proof
    assume "\<exists>pre fp inner r.
      list_all quiet pre \<and> r \<noteq> '''' \<and>
      (\<forall>p n i x. Call p n i x \<in> set pre \<longrightarrow> n = 3) \<and>
      ?t = pre @ [Call fp 5 inner (Inr r), SetReport r, Append report_event, SetComplete] \<and>
      fst (snd (try_block env (files j) c)) = Inr ()"
    then obtain pre fp inner' r where r: "r \<noteq> ''''" and
      three: "\<forall>p n i x. Call p n i x \<in> set pre \<longrightarrow> n = 3" and
      t: "?t = pre @ [Call fp 5 inner' (Inr r), SetReport r, Append report_event, SetComplete]"
      by blast
    from assms(3) have "Call p 5 inner (Inr '''') \<in> set pre"
      unfolding t using r by auto
    with no_call_with_five [OF three] have False
      by blast
    then show ?thesis ..
  next
    assume "\<exists>pre e.
      list_all quiet pre \<and>
      ?t = pre @ [Append (error_event e), SetComplete] \<and>
      fst (snd (try_block env (files j) c)) = Inl e \<and>
      ((\<exists>p i. Call p 5 i (Inr '''') \<in> set pre) \<longrightarrow> e = ValueError empty_response_message)"
    then obtain pre e where q: "list_all quiet pre" and
      t: "?t = pre @ [Append (error_event e), SetComplete]" and
      r: "fst (snd (try_block env (files j) c)) = Inl e" and
      imp: "(\<exists>p i. Call p 5 i (Inr '''') \<in> set pre) \<longrightarrow> e = ValueError empty_response_message"
      by blast
    from assms(3) have "Call p 5 inner (Inr '''') \<in> set pre"
      unfolding t by auto
    with imp have "e = ?e"
      by blast
    with q t r show ?thesis
      by blast
  qed
  then obtain pre where q: "list_all quiet pre" and
    t: "?t = pre @ [Append (error_event ?e), SetComplete]" and
    r: "fst (snd (try_block env (files j) c)) = Inl ?e"
    by blast
  have run: "process_report_task env job_id jobs c = Inr (?jobs', snd (task_effects env (files j) c))"
    using assms(1) by (simp add: process_report_task_known)
  have j': "?jobs' job_id = Some ?j'"
    by simp
  have lastev: "last (status_updates ?j') =
        mk_event ''error''
          (''An error occurred during report processing: '' @
           ''The AI returned an empty response. This can be caused by content filters.'')"
  proof -
    have "last (status_updates ?j') = error_event ?e"
      unfolding t run_effects_append by (rule failure_tail)
    then show ?thesis
      by (simp add: error_event_def empty_response_message_def)
  qed
  have rc: "report_content ?j' = None"
    unfolding t run_effects_append
    by (simp add: failure_tail quiet_run [OF q] assms(2))
  have fin: "is_complete ?j'"
    unfolding t run_effects_append by (rule failure_tail)
  have mid: "report_content (run_effects j pre) = None"
    by (simp add: quiet_run [OF q] assms(2))
  have pre_states: "list_all (\<lambda>s. report_content s = None) (job_states j pre)"
    unfolding list_all_iff using quiet_states [OF q] assms(2) by simp
  have states: "list_all (\<lambda>s. report_content s = None) (job_states j ?t)"
    unfolding t job_states_append
    using pre_states mid by simp
  have dl: "download_report save ?jobs' job_id =
        Inl (HTTPException 404 ''Report not found or not yet complete.'')"
    using j' rc by (simp add: download_none)
  have later: "\<forall>later. later job_id = Some ?j' \<longrightarrow>
         download_report save later job_id =
           Inl (HTTPException 404 ''Report not found or not yet complete.'')"
    using rc by (simp add: download_none)
  from run j' r lastev rc fin states dl later show ?thesis
    by blast
qed

lemma example_filtered:
  "fst (task_effects filtered_env example_files clock0) =
     [Append starting_event,
      Append (mk_event ''status'' ''Summarizing file: a.txt...''),
      Call (summary_prompt ''a.txt'' ''Critical SQL injection in login'') 3
        [Request (summary_prompt ''a.txt'' ''Critical SQL injection in login'')]
        (Inr ''summary''),
      Sleep 5,
      Append generating_event,
      Append (token_event (final_prompt_of example_files [''summary''])),
      Call (final_prompt_of example_files [''summary'']) 5
        [Request (final_prompt_of example_files [''summary''])] (Inr ''''),
      Append (error_event (ValueError empty_response_message)),
      SetComplete]"
  by (simp add: task_effects_def try_block_def Let_def call_with_retry_def
      run_openai_with_retry_def filtered_env_def example_files_def clock0_def
      update_status_def summarizing_message_def tagged_summary_def wait_time_def
      starting_event_def generating_event_def token_event_def token_message_def
      count_tokens_def final_prompt_of_def error_event_def error_message_def upt_conv_Cons)

theorem empty_final_response_witness:
  "\<exists>jobs' c' j'.
      process_report_task filtered_env ''job-0001-abcd'' example_store clock0 = Inr (jobs', c') \<and>
      jobs' ''job-0001-abcd'' = Some j' \<and>
      fst (snd (try_block filtered_env (files (new_job example_files)) clock0))
        = Inl (ValueError empty_response_message) \<and>
      last (status_updates j') =
        mk_event ''error''
          (''An error occurred during report processing: '' @
           ''The AI returned an empty response. This can be caused by content filters.'') \<and>
      report_content j' = None \<and>
      is_complete j' \<and>
      list_all (\<lambda>s. report_content s = None)
        (job_states (new_job example_files)
           (fst (task_effects filtered_env (files (new_job example_files)) clock0))) \<and>
      download_report (\<lambda>blocks. []) jobs' ''job-0001-abcd'' =
        Inl (HTTPException 404 ''Report not found or not yet complete.'') \<and>
      (\<forall>later. later ''job-0001-abcd'' = Some j' \<longrightarrow>
         download_report (\<lambda>blocks. []) later ''job-0001-abcd'' =
           Inl (HTTPException 404 ''Report not found or not yet complete.''))"
proof -
  have h2: "report_content (new_job example_files) = None"
    by (rule new_job_fields)
  have h3: "Call (final_prompt_of example_files [''summary'']) 5
        [Request (final_prompt_of example_files [''summary''])] (Inr '''')
      \<in> set (fst (task_effects filtered_env (files (new_job example_files)) clock0))"
    unfolding new_job_fields example_filtered by simp
  show ?thesis
    by (rule empty_final_response
        [where jobs = example_store and job_id = "''job-0001-abcd''",
          OF example_store_job h2 h3])
qed

section \<open>The report event and the stored report text\<close>




section \<open>The download endpoint\<close>






section \<open>The upload endpoint\<close>








section \<open>The progress stream\<close>

lemma sent_so_far:
  assumes "prefix p xs" and "k \<le> length p"
  shows "map f (take k xs) @ map f (drop k p) = map f (take (length p) xs)"
proof -
  from assms(1) obtain zs where xs: "xs = p @ zs"
    by (auto simp: prefix_def)
  have "take k xs = take k p"
    using assms(2) by (simp add: xs)
  moreover have "take (length p) xs = p"
    by (simp add: xs)
  ultimately have "map f (take k xs) @ map f (drop k p) = map f (take k p @ drop k p)"
    by (simp only: map_append)
  also have "\<dots> = map f p"
    by simp
  finally show ?thesis
    using \<open>take (length p) xs = p\<close> by simp
qed

text \<open>
  A stream that the task does not interrupt at a \<^verbatim>\<open>yield\<close>: every cycle resumes on the
  job as it found it.  When the cycles before the \<open>T\<close>-th find the job incomplete with an
  initial segment of its final event sequence, and the \<open>T\<close>-th finds it complete, the
  generator ends and has yielded one message for each event, in order, and one for the
  \<^verbatim>\<open>done\<close> event.
\<close>

lemma event_generator_runs:
  assumes "n \<le> T"
    and "\<forall>m. n \<le> m \<and> m \<le> T \<longrightarrow> \<not> disconnected (polls m)"
    and "\<forall>m. n \<le> m \<and> m < T \<longrightarrow>
           (\<exists>j. jobs_found (polls m) job_id = Some j \<and> job_resumed (polls m) = j \<and>
                \<not> is_complete j \<and> prefix (status_updates j) (status_updates jT))"
    and "jobs_found (polls T) job_id = Some jT"
    and "job_resumed (polls T) = jT"
    and "is_complete jT"
    and "last_sent_index \<le> length (status_updates jT)"
    and "out = map (sse dumps) (take last_sent_index (status_updates jT))"
  shows "event_generator polls dumps job_id n last_sent_index out =
      Some (Inr (map (sse dumps) (status_updates jT) @ [sse dumps done_event]))"
  using assms
proof (induction "T - n" arbitrary: n last_sent_index out)
  case 0
  then have n: "n = T"
    by simp
  from "0.prems"(2) n have conn: "\<not> disconnected (polls T)"
    by simp
  let ?xs = "status_updates jT"
  have sent: "map (sse dumps) (take last_sent_index ?xs) @ map (sse dumps) (drop last_sent_index ?xs)
      = map (sse dumps) ?xs"
    by (simp flip: map_append)
  have all: "\<not> last_sent_index < length ?xs \<Longrightarrow> take last_sent_index ?xs = ?xs"
    by simp
  show ?case
    unfolding n
    apply (subst event_generator.simps)
    using conn "0.prems"(4,5,6,8) sent all
    apply (simp add: Let_def)
    done
next
  case (Suc d)
  then have less: "n < T"
    by simp
  from Suc.prems(2) less have conn: "\<not> disconnected (polls n)"
    by simp
  from Suc.prems(3) less obtain j where
    j: "jobs_found (polls n) job_id = Some j" and resumed: "job_resumed (polls n) = j" and
    running: "\<not> is_complete j" and
    pre: "prefix (status_updates j) (status_updates jT)"
    by blast
  let ?xs = "status_updates jT"
  let ?p = "status_updates j"
  let ?last = "if last_sent_index < length ?p then length ?p else last_sent_index"
  let ?out = "if last_sent_index < length ?p
      then out @ map (sse dumps) (drop last_sent_index ?p) else out"
  have step: "event_generator polls dumps job_id n last_sent_index out =
      event_generator polls dumps job_id (n + 1) ?last ?out"
    apply (subst event_generator.simps)
    using conn j resumed running
    apply (simp add: Let_def)
    done
  have len: "length ?p \<le> length ?xs"
    using pre by (rule prefix_length_le)
  have last_ok: "?last \<le> length ?xs"
    using len Suc.prems(7) by simp
  have out_ok: "?out = map (sse dumps) (take ?last ?xs)"
  proof (cases "last_sent_index < length ?p")
    case True
    then have "last_sent_index \<le> length ?p"
      by simp
    from sent_so_far [OF pre this, of "sse dumps"] True Suc.prems(8) show ?thesis
      by simp
  next
    case False
    with Suc.prems(8) show ?thesis
      by simp
  qed
  have "event_generator polls dumps job_id (n + 1) ?last ?out =
      Some (Inr (map (sse dumps) ?xs @ [sse dumps done_event]))"
  proof (rule Suc.hyps(1))
    show "d = T - (n + 1)"
      using Suc.hyps(2) by simp
    show "n + 1 \<le> T"
      using less by simp
    show "\<forall>m. n + 1 \<le> m \<and> m \<le> T \<longrightarrow> \<not> disconnected (polls m)"
      using Suc.prems(2) by simp
    show "\<forall>m. n + 1 \<le> m \<and> m < T \<longrightarrow>
           (\<exists>j. jobs_found (polls m) job_id = Some j \<and> job_resumed (polls m) = j \<and>
                \<not> is_complete j \<and> prefix (status_updates j) (status_updates jT))"
      using Suc.prems(3) by simp
    show "jobs_found (polls T) job_id = Some jT"
      by (rule Suc.prems(4))
    show "job_resumed (polls T) = jT"
      by (rule Suc.prems(5))
    show "is_complete jT"
      by (rule Suc.prems(6))
    show "?last \<le> length ?xs"
      by (rule last_ok)
    show "?out = map (sse dumps) (take ?last ?xs)"
      by (rule out_ok)
  qed
  with step show ?case
    by simp
qed

lemma stream_uninterrupted:
  assumes "job_id \<in> dom jobs"
    and "\<forall>m. m \<le> T \<longrightarrow> \<not> disconnected (polls m)"
    and "\<forall>m. m < T \<longrightarrow>
           (\<exists>j. jobs_found (polls m) job_id = Some j \<and> job_resumed (polls m) = j \<and>
                \<not> is_complete j \<and> prefix (status_updates j) (status_updates jT))"
    and "jobs_found (polls T) job_id = Some jT"
    and "job_resumed (polls T) = jT"
    and "is_complete jT"
  shows "stream_status jobs polls dumps job_id =
      Inr (Some (Inr (map (sse dumps) (status_updates jT) @ [sse dumps done_event])))"
proof -
  have "event_generator polls dumps job_id 0 0 [] =
      Some (Inr (map (sse dumps) (status_updates jT) @ [sse dumps done_event]))"
  proof (rule event_generator_runs [where T = T])
    show "0 \<le> T" by simp
    show "\<forall>m. 0 \<le> m \<and> m \<le> T \<longrightarrow> \<not> disconnected (polls m)"
      using assms(2) by simp
    show "\<forall>m. 0 \<le> m \<and> m < T \<longrightarrow>
           (\<exists>j. jobs_found (polls m) job_id = Some j \<and> job_resumed (polls m) = j \<and>
                \<not> is_complete j \<and> prefix (status_updates j) (status_updates jT))"
      using assms(3) by simp
    show "jobs_found (polls T) job_id = Some jT"
      by (rule assms(4))
    show "job_resumed (polls T) = jT"
      by (rule assms(5))
    show "is_complete jT"
      by (rule assms(6))
    show "0 \<le> length (status_updates jT)"
      by simp
    show "[] = map (sse dumps) (take 0 (status_updates jT))"
      by simp
  qed
  with assms(1) show ?thesis
    by (simp add: stream_status_def)
qed

lemma stream_unknown:
  "job_id \<notin> dom jobs \<Longrightarrow>
   stream_status jobs polls dumps job_id = Inl (HTTPException 404 ''Job ID not found.'')"
  by (simp add: stream_status_def not_found_job_def)

lemma calm_stream:
  "stream_status example_store calm_polls example_dumps ''job-0001-abcd'' =
     Inr (Some (Inr (map (sse example_dumps) (status_updates example_final)
                       @ [sse example_dumps done_event])))"
proof (rule stream_uninterrupted [where T = 2])
  show "''job-0001-abcd'' \<in> dom example_store"
    by (simp add: example_store_def)
  show "\<forall>m. m \<le> 2 \<longrightarrow> \<not> disconnected (calm_polls m)"
    by (simp add: calm_polls_def)
  show "\<forall>m. m < 2 \<longrightarrow>
           (\<exists>j. jobs_found (calm_polls m) ''job-0001-abcd'' = Some j \<and>
                job_resumed (calm_polls m) = j \<and>
                \<not> is_complete j \<and> prefix (status_updates j) (status_updates example_final))"
    by (simp add: calm_polls_def example_waiting_job example_final_job)
  show "jobs_found (calm_polls 2) ''job-0001-abcd'' = Some example_final"
    by (simp add: calm_polls_def)
  show "job_resumed (calm_polls 2) = example_final"
    by (simp add: calm_polls_def)
  show "is_complete example_final"
    by (simp add: example_final_job)
qed

text \<open>
  Claim C7.  The stream does not yield every event of the job.  The generator takes the
  slice of the events from \<^verbatim>\<open>last_sent_index\<close> on, yields its elements, and then sets
  \<^verbatim>\<open>last_sent_index\<close> to the length that the event sequence has when the last
  \<^verbatim>\<open>yield\<close> returns: an event that the task appends while the generator is suspended at
  one of these \<^verbatim>\<open>yield\<close>s is counted as sent and never yielded.  In the run below the
  first cycle finds the job with its four status events; while the generator yields
  them, the final call returns and the task stores the report, appends the report event
  and sets the completion flag.  The generator resumes, finds the flag set, yields the
  \<^verbatim>\<open>done\<close> event and ends: the client receives the four status events and \<^verbatim>\<open>done\<close>, and
  never the report event, which stands in the event sequence of the job.
\<close>

theorem stream_drops_report_event:
  "jobs_found (racing_polls 0) ''job-0001-abcd'' = Some example_waiting
   \<and> status_updates example_waiting =
       [starting_event, mk_event ''status'' ''Summarizing file: a.txt...'', generating_event,
        token_event (final_prompt_of example_files [''ok''])]
   \<and> job_resumed (racing_polls 0) = example_final
   \<and> status_updates example_final =
       [starting_event, mk_event ''status'' ''Summarizing file: a.txt...'', generating_event,
        token_event (final_prompt_of example_files [''ok'']),
        mk_event ''report'' ''Report content generated.'']
   \<and> is_complete example_final
   \<and> stream_status example_store racing_polls example_dumps ''job-0001-abcd'' =
       Inr (Some (Inr
         [sse example_dumps starting_event,
          sse example_dumps (mk_event ''status'' ''Summarizing file: a.txt...''),
          sse example_dumps generating_event,
          sse example_dumps (token_event (final_prompt_of example_files [''ok''])),
          sse example_dumps done_event]))
   \<and> stream_status example_store racing_polls example_dumps ''job-0001-abcd'' \<noteq>
       Inr (Some (Inr (map (sse example_dumps) (status_updates example_final)
                         @ [sse example_dumps done_event])))"
proof -
  have a: "jobs_found (racing_polls 0) ''job-0001-abcd'' = Some example_waiting"
    by (simp add: racing_polls_def)
  have b: "status_updates example_waiting =
       [starting_event, mk_event ''status'' ''Summarizing file: a.txt...'', generating_event,
        token_event (final_prompt_of example_files [''ok''])]"
    by (simp add: example_waiting_job)
  have c: "job_resumed (racing_polls 0) = example_final"
    by (simp add: racing_polls_def)
  have d: "status_updates example_final =
       [starting_event, mk_event ''status'' ''Summarizing file: a.txt...'', generating_event,
        token_event (final_prompt_of example_files [''ok'']),
        mk_event ''report'' ''Report content generated.'']"
    by (simp add: example_final_job report_event_def)
  have e: "is_complete example_final"
    by (simp add: example_final_job)
  have conn: "\<not> disconnected (racing_polls 0)"
    by (simp add: racing_polls_def)
  have gen: "event_generator racing_polls example_dumps ''job-0001-abcd'' 0 0 [] =
       Some (Inr
         [sse example_dumps starting_event,
          sse example_dumps (mk_event ''status'' ''Summarizing file: a.txt...''),
          sse example_dumps generating_event,
          sse example_dumps (token_event (final_prompt_of example_files [''ok''])),
          sse example_dumps done_event])"
    apply (subst event_generator.simps)
    apply (simp only: conn a c e b if_False if_True option.case)
    apply simp
    done
  have known: "''job-0001-abcd'' \<in> dom example_store"
    by (simp add: example_store_def)
  have f: "stream_status example_store racing_polls example_dumps ''job-0001-abcd'' =
       Inr (Some (Inr
         [sse example_dumps starting_event,
          sse example_dumps (mk_event ''status'' ''Summarizing file: a.txt...''),
          sse example_dumps generating_event,
          sse example_dumps (token_event (final_prompt_of example_files [''ok''])),
          sse example_dumps done_event]))"
    using known by (simp add: stream_status_def gen)
  have g: "stream_status example_store racing_polls example_dumps ''job-0001-abcd'' \<noteq>
       Inr (Some (Inr (map (sse example_dumps) (status_updates example_final)
                         @ [sse example_dumps done_event])))"
    unfolding f d by simp
  from a b c d e f g show ?thesis
    by (intro conjI)
qed

end
